theory Spec2Isabelle
  imports Complex_Main "HOL-Library.Word"
begin

unbundle bit_operations_syntax

section \<open>JavaScript numbers and bitwise operators\<close>

text \<open>
  The adapter (main.js) computes on JavaScript Numbers. Integer-valued Numbers are modelled
  as \<open>int\<close>, the results of \<open>/\<close> as \<open>real\<close> (the rounding of IEEE doubles is not modelled).
  The bitwise operators \<open>&\<close>, \<open>|\<close>, \<open>~\<close>, \<open><<\<close> and \<open>>>\<close> convert their operands to
  32-bit two's complement integers first and return such an integer; the conversion is
  written out as \<open>toInt32\<close>.
\<close>

definition toInt32 :: "int \<Rightarrow> int" where
  "toInt32 x = signed_take_bit 31 x"

definition js_and :: "int \<Rightarrow> int \<Rightarrow> int" where
  "js_and a b = toInt32 a AND toInt32 b"

definition js_or :: "int \<Rightarrow> int \<Rightarrow> int" where
  "js_or a b = toInt32 a OR toInt32 b"

definition js_not :: "int \<Rightarrow> int" where
  "js_not a = NOT (toInt32 a)"

definition js_shl :: "int \<Rightarrow> nat \<Rightarrow> int" where
  "js_shl a n = toInt32 (push_bit (n mod 32) (toInt32 a))"

definition js_sar :: "int \<Rightarrow> nat \<Rightarrow> int" where
  "js_sar a n = drop_bit (n mod 32) (toInt32 a)"

text \<open>A condition \<open>x ? a : b\<close> or \<open>if (x)\<close> on a Number takes the first branch unless x is 0.\<close>

definition truthy :: "int \<Rightarrow> bool" where
  "truthy x = (x \<noteq> 0)"

section \<open>Bytes and buffers\<close>

text \<open>
  A Buffer is a list of bytes; an element read from it is a Number in 0..255.
  \<open>byteAt\<close> is \<open>data[i]\<close> for an index inside the buffer; every call below is made on a
  buffer whose length has been checked before.
\<close>

type_synonym byte = "8 word"

definition byteAt :: "byte list \<Rightarrow> nat \<Rightarrow> int" where
  "byteAt data i = uint (data ! i)"

text \<open>byte2short(lo, hi), main.js line 830.\<close>

definition byte2short :: "int \<Rightarrow> int \<Rightarrow> int" where
  "byte2short lo hi = js_or (js_shl hi 8) (js_and lo 0xFF)"

text \<open>byte2int(lo_lo, lo_hi, hi_lo, hi_hi), main.js line 843.\<close>

definition byte2int :: "int \<Rightarrow> int \<Rightarrow> int \<Rightarrow> int \<Rightarrow> int" where
  "byte2int lo_lo lo_hi hi_lo hi_hi =
     js_or (js_and (byte2short lo_lo lo_hi) 0xFFFF) (js_shl (byte2short hi_lo hi_hi) 16)"

text \<open>readBlock(data, length), main.js line 679: null is \<open>None\<close>.\<close>

definition readBlock :: "byte list \<Rightarrow> nat \<Rightarrow> byte list option" where
  "readBlock data len = (if length data \<ge> len then Some (take len data) else None)"

section \<open>Errors, promises and the device\<close>

datatype js_error =
    SocketError
  | ConnectionClosed
  | MaxRetriesReached
  | UnknownDataLength nat
  | InvalidResponse
  | UnexpectedDataFormat
  | RangeError
  | TypeError

text \<open>
  The state of the promise an async function returns. \<open>Rejected\<close> is a thrown error,
  \<open>Pending\<close> a promise that is never settled.
\<close>

datatype 'a promise = Pending | Resolved 'a | Rejected js_error

text \<open>resolve and reject have no effect on a promise that is settled already.\<close>

definition settle :: "'a promise \<Rightarrow> 'a promise \<Rightarrow> 'a promise" where
  "settle p q = (case p of Pending \<Rightarrow> q | _ \<Rightarrow> p)"

text \<open>
  One exchange of sendCommand (line 396) either resolves with the bytes of the first data
  event or rejects. The device is the environment: \<open>dev k c\<close> is the outcome of the k-th
  exchange of the run when command byte c is written. The number of exchanges made so far
  is threaded through every function that talks to the device.
\<close>

type_synonym response = "js_error + byte list"
type_synonym device = "nat \<Rightarrow> byte \<Rightarrow> response"

definition sendCommand :: "device \<Rightarrow> nat \<Rightarrow> byte \<Rightarrow> response \<times> nat" where
  "sendCommand dev n command = (dev n command, Suc n)"

definition VERSION_REQUEST :: byte where "VERSION_REQUEST = 0x81"
definition HEADER_READ :: byte where "HEADER_READ = 0xAA"
definition FIRMWARE_REQUEST :: byte where "FIRMWARE_REQUEST = 0x82"
definition MODE_REQUEST :: byte where "MODE_REQUEST = 0x21"
definition READ_CURRENT_DATA :: byte where "READ_CURRENT_DATA = 0xAB"

section \<open>fetchDataBlockFromDevice (line 591)\<close>

definition maxRetries :: nat where
  "maxRetries = 5"

text \<open>
  The while loop of attemptFetch. \<open>attempt\<close> is the loop counter, \<open>n\<close> the number of
  exchanges made, \<open>p\<close> the state of the promise that resolve and reject act on. After a
  reject the loop goes on to its next test, as in the source.
\<close>

function attemptFetch ::
  "device \<Rightarrow> byte \<Rightarrow> nat \<Rightarrow> nat \<Rightarrow> byte list promise \<Rightarrow> byte list promise \<times> nat" where
  "attemptFetch dev command attempt n p =
     (if attempt < maxRetries then
        (let attempt' = attempt + 1 in
         case sendCommand dev n command of
           (Inr data, n') \<Rightarrow>
             if length data > 1 then (settle p (Resolved data), n')
             else attemptFetch dev command attempt' n'
                    (if attempt' \<ge> maxRetries then settle p (Rejected MaxRetriesReached) else p)
         | (Inl error, n') \<Rightarrow>
             attemptFetch dev command attempt' n'
               (if attempt' \<ge> maxRetries then settle p (Rejected MaxRetriesReached) else p))
      else (p, n))"
  by pat_completeness auto
termination
  by (relation "measure (\<lambda>(dev, command, attempt, n, p). maxRetries - attempt)") auto

definition fetchDataBlockFromDevice :: "device \<Rightarrow> byte \<Rightarrow> nat \<Rightarrow> byte list promise \<times> nat" where
  "fetchDataBlockFromDevice dev command n = attemptFetch dev command 0 n Pending"

declare attemptFetch.simps [simp del]

text \<open>
  A failed attempt: sendCommand rejected, or the response is not longer than one byte.
\<close>

definition invalidResponse :: "response \<Rightarrow> bool" where
  "invalidResponse r = (case r of Inl error \<Rightarrow> True | Inr data \<Rightarrow> \<not> length data > 1)"

section \<open>parseUvrRecord (line 719)\<close>

text \<open>
  The objects of the record keep their keys in the order of assignment: association lists.
\<close>

record uvrRecord =
  outputs :: "(string \<times> string) list"
  speed_levels :: "(string \<times> int) list"
  inputs :: "(string \<times> int) list"
  thermal_energy_counters_status :: "(string \<times> string) list"
  thermal_energy_counters :: "(string \<times> real) list"

definition digit_char :: "nat \<Rightarrow> char" where
  "digit_char d = ''0123456789'' ! d"

fun toString_nat :: "nat \<Rightarrow> string" where
  "toString_nat n = (if n < 10 then [digit_char n] else toString_nat (n div 10) @ [digit_char (n mod 10)])"

definition padStart :: "nat \<Rightarrow> char \<Rightarrow> string \<Rightarrow> string" where
  "padStart len c s = replicate (len - length s) c @ s"

text \<open>The key \<open>"S" + (i + 1).toString().padStart(2, "0")\<close> of input i.\<close>

definition inputKey :: "nat \<Rightarrow> string" where
  "inputKey i = ''S'' @ padStart 2 (CHR ''0'') (toString_nat (i + 1))"

definition on_off :: "int \<Rightarrow> string" where
  "on_off x = (if truthy x then ''ON'' else ''OFF'')"

definition active_inactive :: "int \<Rightarrow> string" where
  "active_inactive x = (if truthy x then ''active'' else ''inactive'')"

text \<open>The guard of the sign check of the energy counters (lines 784 and 806).\<close>

definition signCheck :: "int \<Rightarrow> bool" where
  "signCheck highHigh = (highHigh > 32767)"

text \<open>
  The power of one counter from its four bytes (lines 780 to 786, and again 802 to 808).
\<close>

definition heat_power :: "int \<Rightarrow> int \<Rightarrow> int \<Rightarrow> int \<Rightarrow> real" where
  "heat_power lowLow lowHigh highLow highHigh =
     (let hundredths = (real_of_int lowLow * 10) / 256;
          power = (10 * real_of_int (byte2int lowHigh highLow highHigh 0) + hundredths) / 100
      in if signCheck highHigh
         then (10 * real_of_int (byte2int lowHigh highLow highHigh 0 - 65536) - hundredths) / 100
         else power)"

text \<open>The energy of one counter (lines 789 and 811): kWh word / 10 + MWh word * 1000.\<close>

definition heat_energy :: "int \<Rightarrow> int \<Rightarrow> int \<Rightarrow> int \<Rightarrow> real" where
  "heat_energy b0 b1 b2 b3 =
     real_of_int (byte2short b0 b1) / 10 + real_of_int (byte2short b2 b3) * 1000"

definition parseUvrRecord :: "byte list \<Rightarrow> uvrRecord" where
  "parseUvrRecord response =
     (let output = byte2short (byteAt response 33) (byteAt response 34);
          wmz = byteAt response 39
      in \<lparr> outputs =
             [(''A01'', on_off (js_and output 0x01)),
              (''A02'', on_off (js_and output 0x02)),
              (''A03'', on_off (js_and output 0x04)),
              (''A04'', on_off (js_and output 0x08)),
              (''A05'', on_off (js_and output 0x10)),
              (''A06'', on_off (js_and output 0x20)),
              (''A07'', on_off (js_and output 0x40)),
              (''A08'', on_off (js_and output 0x80)),
              (''A09'', on_off (js_and output 0x100)),
              (''A10'', on_off (js_and output 0x200)),
              (''A11'', on_off (js_and output 0x400)),
              (''A12'', on_off (js_and output 0x800)),
              (''A13'', on_off (js_and output 0x1000))],
           speed_levels =
             [(''DzA1'', byteAt response 35),
              (''DzA2'', byteAt response 36),
              (''DzA6'', byteAt response 37),
              (''DzA7'', byteAt response 38)],
           inputs =
             map (\<lambda>i. (inputKey i, byte2short (byteAt response (i * 2 + 1)) (byteAt response (i * 2 + 2))))
                 [0 ..< 16],
           thermal_energy_counters_status =
             [(''wmz1'', active_inactive (js_and wmz 0x1)),
              (''wmz2'', active_inactive (js_and wmz 0x2))],
           thermal_energy_counters =
             (if truthy (js_and wmz 0x1)
              then [(''current_heat_power1'',
                       heat_power (byteAt response 40) (byteAt response 41)
                                  (byteAt response 42) (byteAt response 43)),
                    (''total_heat_energy1'',
                       heat_energy (byteAt response 44) (byteAt response 45)
                                   (byteAt response 46) (byteAt response 47))]
              else [(''current_heat_power1'', 0), (''total_heat_energy1'', 0)]) @
             (if truthy (js_and wmz 0x2)
              then [(''current_heat_power2'',
                       heat_power (byteAt response 48) (byteAt response 49)
                                  (byteAt response 50) (byteAt response 51)),
                    (''total_heat_energy2'',
                       heat_energy (byteAt response 52) (byteAt response 53)
                                   (byteAt response 54) (byteAt response 55))]
              else [(''current_heat_power2'', 0), (''total_heat_energy2'', 0)]) \<rparr>)"

section \<open>fetchStateValuesFromDevice (line 634)\<close>

text \<open>The try block: a throw is \<open>Rejected\<close>.\<close>

definition fetchStateValues_try :: "device \<Rightarrow> nat \<Rightarrow> uvrRecord promise \<times> nat" where
  "fetchStateValues_try dev n =
     (case fetchDataBlockFromDevice dev READ_CURRENT_DATA n of
        (Pending, n') \<Rightarrow> (Pending, n')
      | (Rejected error, n') \<Rightarrow> (Rejected error, n')
      | (Resolved data, n') \<Rightarrow>
          if byteAt data 0 = 0x80 then
            (case readBlock data 57 of
               Some response \<Rightarrow> (Resolved (parseUvrRecord response), n')
             | None \<Rightarrow> (Rejected InvalidResponse, n'))
          else (Rejected UnexpectedDataFormat, n'))"

text \<open>
  The catch block logs the error and falls off the end of the function: the promise
  resolves with undefined, which is \<open>None\<close>.
\<close>

definition fetchStateValuesFromDevice :: "device \<Rightarrow> nat \<Rightarrow> uvrRecord option promise \<times> nat" where
  "fetchStateValuesFromDevice dev n =
     (case fetchStateValues_try dev n of
        (Pending, n') \<Rightarrow> (Pending, n')
      | (Rejected error, n') \<Rightarrow> (Resolved None, n')
      | (Resolved sv, n') \<Rightarrow> (Resolved (Some sv), n'))"

section \<open>readDeviceInfo (line 427)\<close>

record deviceInfo =
  uvr_mode :: string
  uvr_type :: string
  uvr2_type :: "string option"
  module_id :: string
  firmware_version :: string
  transmission_mode :: string

definition hex_char :: "nat \<Rightarrow> char" where
  "hex_char d = ''0123456789ABCDEF'' ! d"

text \<open>\<open>data.toString("hex").toUpperCase()\<close>: two hexadecimal digits for each byte.\<close>

definition toHexUpper :: "byte list \<Rightarrow> string" where
  "toHexUpper data = concat (map (\<lambda>b. [hex_char (unat b div 16), hex_char (unat b mod 16)]) data)"

text \<open>
  \<open>(b / 100).toString()\<close> for a byte b: the shortest decimal numeral of the quotient.
\<close>

definition firmwareVersion_str :: "nat \<Rightarrow> string" where
  "firmwareVersion_str b =
     toString_nat (b div 100) @
     (if b mod 100 = 0 then ''''
      else if b mod 10 = 0 then ''.'' @ [digit_char (b mod 100 div 10)]
      else ''.'' @ [digit_char (b mod 100 div 10), digit_char (b mod 10)])"

text \<open>The switch on a type byte (lines 518 and 533).\<close>

definition uvr_type_str :: "int \<Rightarrow> string" where
  "uvr_type_str t = (if t = 0x5A then ''UVR61-3'' else if t = 0x76 then ''UVR1611'' else ''Unknown'')"

text \<open>
  The switch on the length of the header (line 453): the mode byte and its name, or the
  thrown error.
\<close>

definition header_mode :: "nat \<Rightarrow> js_error + (int \<times> string)" where
  "header_mode len =
     (if len = 14 then Inr (0xD1, ''2DL'')
      else if len = 13 then Inr (0xA8, ''1DL'')
      else if len = 21 then Inr (0xDC, ''CAN'')
      else Inl (UnknownDataLength len))"

text \<open>Lines 482 to 544: the two type bytes of the header and their names.\<close>

definition header_types :: "int \<Rightarrow> byte list \<Rightarrow> string \<times> string option" where
  "header_types mode data =
     (let (t1, t2) = (if mode = 0xD1 then (byteAt data 5, Some (byteAt data 6))
                      else (byteAt data 5, None));
          t1' = (if mode = 0xDC then 0x76 else t1)
      in (uvr_type_str t1', map_option uvr_type_str t2))"

definition transmission_mode_str :: "int \<Rightarrow> string" where
  "transmission_mode_str m = (if m = 0x80 then ''Current Data'' else ''Unknown'')"

text \<open>
  The catch block of readDeviceInfo throws the error again, so every failure of a step is
  a rejection. readUInt8(0) throws on an empty buffer.
\<close>

definition readDeviceInfo :: "device \<Rightarrow> nat \<Rightarrow> deviceInfo promise \<times> nat" where
  "readDeviceInfo dev n =
     (case sendCommand dev n VERSION_REQUEST of
        (Inl error, n1) \<Rightarrow> (Rejected error, n1)
      | (Inr version, n1) \<Rightarrow>
         (case fetchDataBlockFromDevice dev HEADER_READ n1 of
            (Pending, n2) \<Rightarrow> (Pending, n2)
          | (Rejected error, n2) \<Rightarrow> (Rejected error, n2)
          | (Resolved data, n2) \<Rightarrow>
             (case header_mode (length data) of
                Inl error \<Rightarrow> (Rejected error, n2)
              | Inr (mode, uvr_mode_str) \<Rightarrow>
                 (let (type_str, type2_str) = header_types mode data in
                  case sendCommand dev n2 FIRMWARE_REQUEST of
                    (Inl error, n3) \<Rightarrow> (Rejected error, n3)
                  | (Inr fw, n3) \<Rightarrow>
                     if fw = [] then (Rejected RangeError, n3)
                     else
                      (case sendCommand dev n3 MODE_REQUEST of
                         (Inl error, n4) \<Rightarrow> (Rejected error, n4)
                       | (Inr md, n4) \<Rightarrow>
                          if md = [] then (Rejected RangeError, n4)
                          else (Resolved
                                 \<lparr> uvr_mode = uvr_mode_str,
                                   uvr_type = type_str,
                                   uvr2_type = type2_str,
                                   module_id = ''0x'' @ toHexUpper version,
                                   firmware_version = firmwareVersion_str (unat (hd fw)),
                                   transmission_mode = transmission_mode_str (byteAt md 0) \<rparr>,
                                n4))))))"

section \<open>readSystemConfiguration (line 148) and determineUnit (line 205)\<close>

text \<open>
  Strings are lists of code units; the degree sign is the code unit 0xB0, the
  superscript two 0xB2.
\<close>

definition determineUnit :: "int \<Rightarrow> string" where
  "determineUnit unitBits =
     (if unitBits = 0x00 then ''unused''
      else if unitBits = 0x10 then ''digital''
      else if unitBits = 0x20 then [CHR 0xB0, CHR ''C'']
      else if unitBits = 0x30 then ''l/h''
      else if unitBits = 0x60 then [CHR ''W'', CHR ''/'', CHR ''m'', CHR 0xB2]
      else if unitBits = 0x70 then [CHR 0xB0] @ ''C (room sensor)''
      else ''unknown'')"

text \<open>The unit of one input word, as the loop at line 171 derives it.\<close>

definition probeUnit :: "int \<Rightarrow> string" where
  "probeUnit v = (let highByte = js_sar v 8; unitBits = js_and highByte 0x70 in determineUnit unitBits)"

record systemConfiguration =
  success :: bool
  stateValues :: "uvrRecord option"
  deviceInfo :: "deviceInfo option"
  units :: "(string \<times> string) list"

text \<open>The result of both failure paths: empty objects are \<open>None\<close> and the empty list.\<close>

definition failedConfiguration :: systemConfiguration where
  "failedConfiguration = \<lparr> success = False, stateValues = None, deviceInfo = None, units = [] \<rparr>"

text \<open>
  When the fetch resolves with undefined, reading \<open>stateValues.inputs\<close> throws a
  TypeError inside the second try block, whose catch returns the failed configuration.
\<close>

definition readSystemConfiguration :: "device \<Rightarrow> nat \<Rightarrow> systemConfiguration promise \<times> nat" where
  "readSystemConfiguration dev n =
     (case readDeviceInfo dev n of
        (Pending, n1) \<Rightarrow> (Pending, n1)
      | (Rejected error, n1) \<Rightarrow> (Resolved failedConfiguration, n1)
      | (Resolved info, n1) \<Rightarrow>
         (case fetchStateValuesFromDevice dev n1 of
            (Pending, n2) \<Rightarrow> (Pending, n2)
          | (Rejected error, n2) \<Rightarrow> (Resolved failedConfiguration, n2)
          | (Resolved None, n2) \<Rightarrow> (Resolved failedConfiguration, n2)
          | (Resolved (Some sv), n2) \<Rightarrow>
             (Resolved \<lparr> success = True,
                         stateValues = Some sv,
                         deviceInfo = Some info,
                         units = map (\<lambda>(key, v). (key, probeUnit v)) (inputs sv) \<rparr>,
              n2)))"

section \<open>startPolling (line 54): the timer callback\<close>

datatype jsval = JUndefined | JBool bool | JNum real | JStr string

text \<open>
  The adapter: its initialized flag and the values handed to setState, oldest first.
  The object declarations of setObjectNotExistsAsync belong to the external store and are
  not part of this state.
\<close>

record adapter =
  initialized :: bool
  states :: "(string \<times> jsval) list"

text \<open>onReady (line 37).\<close>

definition onReady :: adapter where
  "onReady = \<lparr> initialized = False, states = [] \<rparr>"

definition setState :: "string \<Rightarrow> jsval \<Rightarrow> adapter \<Rightarrow> adapter" where
  "setState ident v a = a \<lparr> states := states a @ [(ident, v)] \<rparr>"

definition setStates :: "(string \<times> jsval) list \<Rightarrow> adapter \<Rightarrow> adapter" where
  "setStates kvs a = foldl (\<lambda>a' (ident, v). setState ident v a') a kvs"

text \<open>The value last published under a key.\<close>

definition published :: "adapter \<Rightarrow> string \<Rightarrow> jsval option" where
  "published a ident = map_of (rev (states a)) ident"

text \<open>declareObjects (line 228): the states it sets, one for each entry of deviceInfo.\<close>

definition declareObjects :: "systemConfiguration \<Rightarrow> adapter \<Rightarrow> adapter" where
  "declareObjects cfg a =
     (case deviceInfo cfg of
        None \<Rightarrow> a
      | Some info \<Rightarrow>
          setStates
            [(''info.uvr_mode'', JStr (uvr_mode info)),
             (''info.uvr_type'', JStr (uvr_type info)),
             (''info.uvr2_type'', (case uvr2_type info of None \<Rightarrow> JUndefined | Some s \<Rightarrow> JStr s)),
             (''info.module_id'', JStr (module_id info)),
             (''info.firmware_version'', JStr (firmware_version info)),
             (''info.transmission_mode'', JStr (transmission_mode info))] a)"

text \<open>
  Lines 94 to 108: the value of an input word after the sign has been resolved, before
  the unit is looked at.
\<close>

definition inputSignResolved :: "int \<Rightarrow> int" where
  "inputSignResolved subValue =
     (let highByte = js_sar subValue 8;
          lowByte = js_and subValue 0xFF;
          signBit = js_and highByte 0x80;
          input = byte2short lowByte (js_and highByte 0x0F)
      in if truthy signBit
         then - js_and (js_and (js_not (js_or input 0xF000)) 0xFFFF + 1) 0xFFFF
         else input)"

text \<open>Line 97: the unit bits of an input word.\<close>

definition inputUnitBits :: "int \<Rightarrow> int" where
  "inputUnitBits subValue = (let highByte = js_sar subValue 8 in js_and highByte 0x70)"

text \<open>Lines 109 to 113: finalValue, the value published for an input.\<close>

definition inputFinalValue :: "int \<Rightarrow> real" where
  "inputFinalValue subValue =
     (if inputUnitBits subValue = 0x20
      then real_of_int (inputSignResolved subValue) / 10
      else real_of_int (inputSignResolved subValue))"

text \<open>
  The two loops over the entries of the record (lines 85 to 134), one part for each of its
  five objects, in their order; only the inputs are processed.
\<close>

definition publishOutputs :: "uvrRecord \<Rightarrow> (string \<times> jsval) list" where
  "publishOutputs sv = map (\<lambda>(subKey, subValue). (''outputs.'' @ subKey, JStr subValue)) (outputs sv)"

definition publishSpeedLevels :: "uvrRecord \<Rightarrow> (string \<times> jsval) list" where
  "publishSpeedLevels sv =
     map (\<lambda>(subKey, subValue). (''speed_levels.'' @ subKey, JNum (real_of_int subValue))) (speed_levels sv)"

definition publishInputs :: "uvrRecord \<Rightarrow> (string \<times> jsval) list" where
  "publishInputs sv =
     map (\<lambda>(subKey, subValue). (''inputs.'' @ subKey, JNum (inputFinalValue subValue))) (inputs sv)"

definition publishCountersStatus :: "uvrRecord \<Rightarrow> (string \<times> jsval) list" where
  "publishCountersStatus sv =
     map (\<lambda>(subKey, subValue). (''thermal_energy_counters_status.'' @ subKey, JStr subValue))
         (thermal_energy_counters_status sv)"

definition publishCounters :: "uvrRecord \<Rightarrow> (string \<times> jsval) list" where
  "publishCounters sv =
     map (\<lambda>(subKey, subValue). (''thermal_energy_counters.'' @ subKey, JNum subValue))
         (thermal_energy_counters sv)"

definition publishStateValues :: "uvrRecord \<Rightarrow> (string \<times> jsval) list" where
  "publishStateValues sv =
     publishOutputs sv @ publishSpeedLevels sv @ publishInputs sv @
     publishCountersStatus sv @ publishCounters sv"

text \<open>
  The polling half of the callback (lines 80 to 140). The connection status is set to
  true as soon as the fetch has returned; with undefined, Object.entries then throws a
  TypeError and the catch block sets the status to false.
\<close>

definition poll :: "device \<Rightarrow> adapter \<times> nat \<Rightarrow> adapter \<times> nat" where
  "poll dev = (\<lambda>(a, n).
     case fetchStateValuesFromDevice dev n of
       (Pending, n') \<Rightarrow> (a, n')
     | (Rejected error, n') \<Rightarrow> (setState ''info.connection'' (JBool False) a, n')
     | (Resolved r, n') \<Rightarrow>
         (let a1 = setState ''info.connection'' (JBool True) a in
          case r of
            None \<Rightarrow> (setState ''info.connection'' (JBool False) a1, n')
          | Some sv \<Rightarrow> (setStates (publishStateValues sv) a1, n')))"

text \<open>
  The initialization half (lines 59 to 77): the new state, the exchanges made, and
  whether the callback goes on to the polling half.
\<close>

definition initialize :: "device \<Rightarrow> adapter \<times> nat \<Rightarrow> adapter \<times> nat \<times> bool" where
  "initialize dev = (\<lambda>(a, n).
     case readSystemConfiguration dev n of
       (Pending, n') \<Rightarrow> (a, n', False)
     | (Rejected error, n') \<Rightarrow> (a, n', False)
     | (Resolved cfg, n') \<Rightarrow>
         (let a1 = setState ''info.connection'' (JBool (success cfg)) a in
          if success cfg then ((declareObjects cfg a1) \<lparr> initialized := True \<rparr>, n', True)
          else (a1, n', True)))"

definition tick :: "device \<Rightarrow> adapter \<times> nat \<Rightarrow> adapter \<times> nat" where
  "tick dev = (\<lambda>(a, n).
     let (a1, n1, continue) = (if \<not> initialized a then initialize dev (a, n) else (a, n, True))
     in if continue \<and> initialized a1 then poll dev (a1, n1) else (a1, n1))"

text \<open>k callbacks of the timer, one after the other.\<close>

fun run :: "device \<Rightarrow> nat \<Rightarrow> adapter \<times> nat \<Rightarrow> adapter \<times> nat" where
  "run dev 0 s = s"
| "run dev (Suc k) s = run dev k (tick dev s)"

section \<open>The specification's units\<close>

text \<open>
  The Unit enumeration of the specification, its mapping from the unit code, the name the
  adapter gives each unit, and the scaling rule of the specification.
\<close>

datatype Unit = Unused | Digital | Celsius | LitersPerHour | WattsPerSquareMeter | RoomCelsius | Unknown

definition spec_unit :: "int \<Rightarrow> Unit" where
  "spec_unit code =
     (if code = 0x00 then Unused
      else if code = 0x10 then Digital
      else if code = 0x20 then Celsius
      else if code = 0x30 then LitersPerHour
      else if code = 0x60 then WattsPerSquareMeter
      else if code = 0x70 then RoomCelsius
      else Unknown)"

fun unit_name :: "Unit \<Rightarrow> string" where
  "unit_name Unused = ''unused''"
| "unit_name Digital = ''digital''"
| "unit_name Celsius = [CHR 0xB0, CHR ''C'']"
| "unit_name LitersPerHour = ''l/h''"
| "unit_name WattsPerSquareMeter = [CHR ''W'', CHR ''/'', CHR ''m'', CHR 0xB2]"
| "unit_name RoomCelsius = [CHR 0xB0] @ ''C (room sensor)''"
| "unit_name Unknown = ''unknown''"

definition spec_scale :: "Unit \<Rightarrow> int \<Rightarrow> real" where
  "spec_scale u v = (if u = Celsius then real_of_int v / 10 else real_of_int v)"


section \<open>The specification's outputs\<close>

text \<open>
  The outputs as the specification describes them: bits 0 to 12 of the outputs word give
  A01 to A13, a set bit "ON" and a clear bit "OFF".
\<close>

definition outputBits :: "int \<Rightarrow> (string \<times> string) list" where
  "outputBits w =
     map (\<lambda>(name, k). (name, if bit w k then ''ON'' else ''OFF''))
       [(''A01'', 0), (''A02'', 1), (''A03'', 2), (''A04'', 3), (''A05'', 4), (''A06'', 5),
        (''A07'', 6), (''A08'', 7), (''A09'', 8), (''A10'', 9), (''A11'', 10), (''A12'', 11),
        (''A13'', 12::nat)]"

section \<open>Example data\<close>

text \<open>
  A 57-byte record with the outputs word 0x0005 in bytes 33 and 34, the speed bytes
  30, 14, 0, 158 in bytes 35 to 38 and the counter status 0x01 in byte 39.
\<close>

definition syntheticRecord :: "byte list" where
  "syntheticRecord =
     (replicate 57 0)[0 := 0x80, 33 := 0x05, 34 := 0x00, 35 := 30, 36 := 14, 37 := 0, 38 := 158,
                      39 := 0x01]"

text \<open>
  A 57-byte record whose first counter is active and has the bytes 0, 100, 0, 0.
\<close>

definition counterRecord :: "byte list" where
  "counterRecord = (replicate 57 0)[0 := 0x80, 39 := 0x01, 41 := 100]"

text \<open>A 13-byte header whose type byte at offset 5 is 0x76.\<close>

definition exampleHeader :: "byte list" where
  "exampleHeader = (replicate 13 0)[0 := 0xA8, 5 := 0x76]"

text \<open>
  A device that answers the four exchanges of the probe and then every current-data
  request with the synthetic record; a device that answers every request with two bytes
  that do not start a current-data block; and a device that closes every connection.
\<close>

definition exampleDevice :: device where
  "exampleDevice k c =
     (if k = 0 then Inr [0x01]
      else if k = 1 then Inr exampleHeader
      else if k = 2 then Inr [0xF5]
      else if k = 3 then Inr [0x80]
      else Inr syntheticRecord)"

text \<open>A device that answers like the example device five times and then closes every connection.\<close>

definition fadingDevice :: device where
  "fadingDevice k c = (if k < 5 then exampleDevice k c else Inl ConnectionClosed)"

text \<open>The device information and the configuration that the probe of the example device gives.\<close>

definition exampleInfo :: deviceInfo where
  "exampleInfo =
     \<lparr> uvr_mode = ''1DL'', uvr_type = ''UVR1611'', uvr2_type = None, module_id = ''0x01'',
       firmware_version = ''2.45'', transmission_mode = ''Current Data'' \<rparr>"

definition exampleConfiguration :: systemConfiguration where
  "exampleConfiguration =
     \<lparr> success = True,
       stateValues = Some (parseUvrRecord syntheticRecord),
       deviceInfo = Some exampleInfo,
       units = map (\<lambda>(key, v). (key, probeUnit v)) (inputs (parseUvrRecord syntheticRecord)) \<rparr>"

definition strayDevice :: device where
  "strayDevice k c = Inr [0x81, 0x00]"

definition deadDevice :: device where
  "deadDevice k c = Inl ConnectionClosed"

section \<open>Bitwise operators on small numbers\<close>

lemma toInt32_id: "- (2 ^ 31) \<le> x \<Longrightarrow> x < 2 ^ 31 \<Longrightarrow> toInt32 x = x"
  unfolding toInt32_def by (rule signed_take_bit_int_eq_self)

lemma js_and_int32:
  "- (2 ^ 31) \<le> a \<Longrightarrow> a < 2 ^ 31 \<Longrightarrow> - (2 ^ 31) \<le> b \<Longrightarrow> b < 2 ^ 31 \<Longrightarrow> js_and a b = a AND b"
  by (simp add: js_and_def toInt32_id)

lemma js_or_int32:
  "- (2 ^ 31) \<le> a \<Longrightarrow> a < 2 ^ 31 \<Longrightarrow> - (2 ^ 31) \<le> b \<Longrightarrow> b < 2 ^ 31 \<Longrightarrow> js_or a b = a OR b"
  by (simp add: js_or_def toInt32_id)

lemma js_not_int32: "- (2 ^ 31) \<le> a \<Longrightarrow> a < 2 ^ 31 \<Longrightarrow> js_not a = - a - 1"
  by (simp add: js_not_def toInt32_id not_int_def)

lemma js_sar_8: "0 \<le> a \<Longrightarrow> a < 2 ^ 31 \<Longrightarrow> js_sar a 8 = a div 256"
  by (simp add: js_sar_def toInt32_id drop_bit_eq_div)

lemma js_shl_8: "0 \<le> a \<Longrightarrow> a < 2 ^ 23 \<Longrightarrow> js_shl a 8 = a * 256"
  by (simp add: js_shl_def toInt32_id push_bit_eq_mult)

lemma js_shl_16: "0 \<le> a \<Longrightarrow> a < 2 ^ 15 \<Longrightarrow> js_shl a 16 = a * 65536"
  by (simp add: js_shl_def toInt32_id push_bit_eq_mult)

lemma and_255: "(x::int) AND 255 = x mod 256"
  using take_bit_eq_mask[of 8 x] by (simp add: take_bit_eq_mod mask_eq_exp_minus_1)

lemma and_15: "(x::int) AND 15 = x mod 16"
  using take_bit_eq_mask[of 4 x] by (simp add: take_bit_eq_mod mask_eq_exp_minus_1)

lemma and_65535: "(x::int) AND 65535 = x mod 65536"
  using take_bit_eq_mask[of 16 x] by (simp add: take_bit_eq_mod mask_eq_exp_minus_1)

lemma or_shifted: "0 \<le> lo \<Longrightarrow> lo < 2 ^ n \<Longrightarrow> (hi * 2 ^ n) OR lo = hi * 2 ^ n + (lo::int)"
  using concat_bit_eq[of n lo hi]
  by (simp add: concat_bit_def take_bit_int_eq_self push_bit_eq_mult or.commute)

lemma byte_range: "0 \<le> uint (b::byte)" "uint (b::byte) < 256"
  using uint_lt2p[of b] by simp_all

lemma byteAt_range: "0 \<le> byteAt data i" "byteAt data i < 256"
  by (simp_all add: byteAt_def byte_range)

lemma byte2short_eq:
  assumes "0 \<le> lo" "lo < 256" "0 \<le> hi" "hi < 2 ^ 23"
  shows "byte2short lo hi = hi * 256 + lo"
proof -
  have a: "js_and lo 0xFF = lo" using assms by (simp add: js_and_int32 and_255)
  have s: "js_shl hi 8 = hi * 256" using assms by (simp add: js_shl_8)
  have "hi * 256 < 2 ^ 31" using assms by simp
  then have "js_or (hi * 256) lo = (hi * 256) OR lo" using assms by (simp add: js_or_int32)
  also have "\<dots> = hi * 256 + lo" using or_shifted[of lo 8 hi] assms by simp
  finally show ?thesis by (simp add: byte2short_def a s)
qed

lemma byte2short_range:
  assumes "0 \<le> lo" "lo < 256" "0 \<le> hi" "hi < 256"
  shows "0 \<le> byte2short lo hi" "byte2short lo hi < 65536"
  using assms by (simp_all add: byte2short_eq)

lemma bit7_iff:
  assumes "0 \<le> h" "h < 256"
  shows "bit h 7 = (128 \<le> (h::int))"
  using assms by (simp add: bit_iff_odd) presburger

lemma and_128_iff:
  assumes "0 \<le> h" "h < 256"
  shows "(h AND 128 \<noteq> 0) = (128 \<le> (h::int))"
proof -
  have "(h AND 2 ^ 7 = 0) = (\<not> bit h 7)" by (rule and_exp_eq_0_iff_not_bit)
  then show ?thesis using bit7_iff[OF assms] by simp
qed

lemma div_mod_256:
  fixes w :: int
  obtains q r where "w = 256 * q + r" "0 \<le> r" "r < 256" "q = w div 256" "r = w mod 256"
  by (metis mult_div_mod_eq pos_mod_sign pos_mod_bound zero_less_numeral)

lemma high_bit_iff: "(128 \<le> w div 256) = (\<not> (w::int) < 32768)"
proof -
  obtain q r where "w = 256 * q + r" "0 \<le> r" "r < 256" "q = w div 256"
    by (rule div_mod_256)
  then show ?thesis by auto
qed

lemma raw12_eq: "(w::int) div 256 mod 16 * 256 + w mod 256 = w mod 4096"
  using zmod_zmult2_eq[of 16 w 256] by simp

lemma neg_mask: "0 \<le> r \<Longrightarrow> r < 4096 \<Longrightarrow> (- (r + 61440) - 1) mod 65536 = 4095 - (r::int)"
proof -
  assume r: "0 \<le> r" "r < 4096"
  have "(- (r + 61440) - 1) = (4095 - r) - 65536" by simp
  then have "(- (r + 61440) - 1) mod 65536 = (4095 - r - 65536) mod 65536" by simp
  also have "\<dots> = (4095 - r) mod 65536" by (rule minus_mod_self2)
  also have "\<dots> = 4095 - r" using r by simp
  finally show ?thesis .
qed

section \<open>The value of an input word\<close>

lemma high_byte_range:
  assumes "0 \<le> w" "w < 65536"
  shows "0 \<le> w div 256" "(w::int) div 256 < 256"
  using assms by simp_all

lemma inputUnitBits_eq:
  assumes "0 \<le> w" "w < 65536"
  shows "inputUnitBits w = (w div 256) AND 0x70"
proof -
  have sar: "js_sar w 8 = w div 256" using assms by (simp add: js_sar_8)
  show ?thesis unfolding inputUnitBits_def Let_def sar
    using high_byte_range[OF assms] by (simp add: js_and_int32)
qed

lemma inputSignResolved_closed:
  assumes "0 \<le> w" "w < 65536"
  shows "inputSignResolved w = (if w < 32768 then w mod 4096 else w mod 4096 - 4096)"
proof -
  define h where "h = w div 256"
  have h: "0 \<le> h" "h < 256" using assms by (simp_all add: h_def)
  have sar: "js_sar w 8 = h" using assms by (simp add: js_sar_8 h_def)
  have lo: "js_and w 0xFF = w mod 256" using assms by (simp add: js_and_int32 and_255)
  have nib: "js_and h 0x0F = h mod 16" using h by (simp add: js_and_int32 and_15)
  have sgn: "truthy (js_and h 0x80) = (128 \<le> h)"
    using h by (simp add: truthy_def js_and_int32 and_128_iff)
  have raw: "byte2short (w mod 256) (h mod 16) = h mod 16 * 256 + w mod 256"
    by (rule byte2short_eq) simp_all
  have raw12: "h mod 16 * 256 + w mod 256 = w mod 4096" unfolding h_def by (rule raw12_eq)
  define r where "r = w mod 4096"
  have r: "0 \<le> r" "r < 4096" by (simp_all add: r_def)
  have o: "js_or r 0xF000 = r + 0xF000"
  proof -
    have "js_or r 0xF000 = r OR 0xF000" using r by (simp add: js_or_int32)
    also have "\<dots> = (15 * 2 ^ 12) OR r" by (simp add: or.commute)
    also have "\<dots> = 15 * 2 ^ 12 + r" using r by (intro or_shifted) simp_all
    finally show ?thesis by simp
  qed
  have n: "js_not (r + 0xF000) = - (r + 0xF000) - 1" using r by (simp add: js_not_int32)
  have m: "js_and (- (r + 0xF000) - 1) 0xFFFF = 4095 - r"
  proof -
    have "js_and (- (r + 0xF000) - 1) 0xFFFF = (- (r + 0xF000) - 1) AND 0xFFFF"
      using r by (simp add: js_and_int32)
    also have "\<dots> = (- (r + 0xF000) - 1) mod 65536" by (simp add: and_65535)
    also have "\<dots> = 4095 - r" using r by (rule neg_mask)
    finally show ?thesis .
  qed
  have p: "js_and (4095 - r + 1) 0xFFFF = 4096 - r"
  proof -
    have "js_and (4095 - r + 1) 0xFFFF = (4095 - r + 1) AND 0xFFFF"
      using r by (simp add: js_and_int32)
    also have "\<dots> = (4095 - r + 1) mod 65536" by (simp add: and_65535)
    also have "\<dots> = 4096 - r" using r by simp
    finally show ?thesis .
  qed
  have hs: "(128 \<le> h) = (\<not> w < 32768)" unfolding h_def by (rule high_bit_iff)
  show ?thesis
    unfolding inputSignResolved_def Let_def sar lo nib sgn raw raw12 hs
    unfolding r_def[symmetric] o n m p by simp
qed

lemma sign_bit_iff:
  assumes "0 \<le> w" "w < 65536"
  shows "bit (w div 256) 7 = (\<not> (w::int) < 32768)"
  using bit7_iff[OF high_byte_range[OF assms]] by (simp only: high_bit_iff)

lemma raw12_split: "(w::int) mod 256 + 256 * (w div 256 mod 16) = w mod 4096"
  using raw12_eq[of w] by (simp add: ac_simps)

lemma inputSignResolved_range:
  assumes "0 \<le> w" "w < 65536"
  shows "- 4096 \<le> inputSignResolved w" "inputSignResolved w \<le> 4095"
proof -
  have "0 \<le> w mod 4096" "w mod 4096 < 4096" by simp_all
  then show "- 4096 \<le> inputSignResolved w" "inputSignResolved w \<le> 4095"
    by (auto simp: inputSignResolved_closed[OF assms])
qed

text \<open>
  C1: for every 16-bit input word w, with high byte \<open>w div 256\<close> and low byte
  \<open>w mod 256\<close>, the value published for the input is raw12 (the low byte plus the low
  nibble of the high byte, shifted by 8) when bit 7 of the high byte is clear, and
  raw12 - 4096 when it is set; this value is divided by 10 exactly when the unit bits
  (high byte AND 0x70) are 0x20, and left as it is for every other unit code.
\<close>

theorem C1_input_value:
  assumes "0 \<le> w" "w < 65536"
  shows "inputFinalValue w =
     (let highByte = w div 256;
          lowByte = w mod 256;
          raw12 = lowByte + 256 * (highByte mod 16);
          v = (if \<not> bit highByte 7 then raw12 else raw12 - 4096)
      in if highByte AND 0x70 = 0x20 then real_of_int v / 10 else real_of_int v)"
  unfolding inputFinalValue_def Let_def
  by (simp add: inputUnitBits_eq[OF assms] inputSignResolved_closed[OF assms]
      sign_bit_iff[OF assms] raw12_split)

theorem C1_input_value_witness:
  "(0::int) \<le> 0xA0FF \<and> (0xA0FF::int) < 65536 \<and> inputFinalValue 0xA0FF = - 384.1
   \<and> inputFinalValue 0x20FF = 25.5 \<and> inputFinalValue 0xB0FF = - 3841"
proof -
  have a: "inputFinalValue 0xA0FF = - 384.1"
    using C1_input_value[of "0xA0FF"] by (simp add: bit_iff_odd)
  have b: "inputFinalValue 0x20FF = 25.5"
    using C1_input_value[of "0x20FF"] by (simp add: bit_iff_odd)
  have c: "inputFinalValue 0xB0FF = - 3841"
    using C1_input_value[of "0xB0FF"] by (simp add: bit_iff_odd)
  show ?thesis using a b c by simp
qed



section \<open>The inputs of a record\<close>

lemma inputs_parseUvrRecord:
  "inputs (parseUvrRecord response) =
     map (\<lambda>i. (inputKey i, byte2short (byteAt response (i * 2 + 1)) (byteAt response (i * 2 + 2))))
         [0 ..< 16]"
  by (simp add: parseUvrRecord_def Let_def)

lemma inputs_range:
  assumes "(key, v) \<in> set (inputs (parseUvrRecord response))"
  shows "0 \<le> v \<and> v < 65536"
proof -
  from assms obtain i where "v = byte2short (byteAt response (i * 2 + 1)) (byteAt response (i * 2 + 2))"
    unfolding inputs_parseUvrRecord by auto
  then show ?thesis
    using byte2short_range[OF byteAt_range byteAt_range, of response "i * 2 + 1" response "i * 2 + 2"]
    by simp
qed

lemma inputFinalValue_range:
  assumes "0 \<le> w" "w < 65536"
  shows "- 4096 \<le> inputFinalValue w \<and> inputFinalValue w \<le> 4095"
    and "inputUnitBits w = 0x20 \<Longrightarrow> - 409.6 \<le> inputFinalValue w \<and> inputFinalValue w \<le> 409.5"
proof -
  define v where "v = inputSignResolved w"
  have v: "- 4096 \<le> v" "v \<le> 4095"
    using inputSignResolved_range[OF assms] by (simp_all add: v_def)
  then have rv: "- 4096 \<le> real_of_int v" "real_of_int v \<le> 4095" by linarith+
  show "- 4096 \<le> inputFinalValue w \<and> inputFinalValue w \<le> 4095"
    unfolding inputFinalValue_def v_def[symmetric] using rv by auto
  show "inputUnitBits w = 0x20 \<Longrightarrow> - 409.6 \<le> inputFinalValue w \<and> inputFinalValue w \<le> 409.5"
    unfolding inputFinalValue_def v_def[symmetric] using rv by auto
qed

lemma publishInputs_range:
  assumes "(key, JNum x) \<in> set (publishInputs (parseUvrRecord response))"
  shows "- 4096 \<le> x \<and> x \<le> 4095"
proof -
  from assms obtain subKey subValue where
    m: "(subKey, subValue) \<in> set (inputs (parseUvrRecord response))" and
    x: "x = inputFinalValue subValue"
    unfolding publishInputs_def by auto
  from inputs_range[OF m] have "0 \<le> subValue" "subValue < 65536" by simp_all
  then show ?thesis unfolding x by (rule inputFinalValue_range(1))
qed

lemma publishInputs_member:
  assumes "i < 16"
  shows "(''inputs.'' @ inputKey i,
          JNum (inputFinalValue (byte2short (byteAt response (i * 2 + 1)) (byteAt response (i * 2 + 2)))))
         \<in> set (publishInputs (parseUvrRecord response))"
proof -
  have "(inputKey i, byte2short (byteAt response (i * 2 + 1)) (byteAt response (i * 2 + 2)))
        \<in> set (inputs (parseUvrRecord response))"
    unfolding inputs_parseUvrRecord using assms by auto
  then show ?thesis unfolding publishInputs_def by force
qed

text \<open>
  C10: for every 16-bit input word the value after the sign has been resolved, before
  the unit is applied, lies in [-4096, 4095], and a value scaled for the Celsius unit
  lies in [-409.6, 409.5]; every number published for an input of a 57-byte record lies
  in [-4096, 4095].
\<close>

theorem C10_input_range:
  "(0 \<le> w \<and> w < 65536 \<longrightarrow>
      - 4096 \<le> inputSignResolved w \<and> inputSignResolved w \<le> 4095 \<and>
      (inputUnitBits w = 0x20 \<longrightarrow> - 409.6 \<le> inputFinalValue w \<and> inputFinalValue w \<le> 409.5)) \<and>
   (length response = 57 \<and> (key, JNum x) \<in> set (publishInputs (parseUvrRecord response)) \<longrightarrow>
      - 4096 \<le> x \<and> x \<le> 4095)"
  using inputSignResolved_range[of w] inputFinalValue_range(2)[of w] 
    publishInputs_range[of key x response]
  by blast


theorem C10_input_range_witness:
  "(0::int) \<le> 0xA000 \<and> (0xA000::int) < 65536 \<and> inputUnitBits 0xA000 = 0x20 \<and>
   inputSignResolved 0xA000 = - 4096 \<and> inputFinalValue 0xA000 = - 409.6 \<and>
   length (replicate 57 (0::byte)) = 57 \<and>
   (''inputs.S01'', JNum 0) \<in> set (publishInputs (parseUvrRecord (replicate 57 0))) \<and>
   - 4096 \<le> (0::real) \<and> (0::real) \<le> 4095"
proof -
  have u: "inputUnitBits 0xA000 = 0x20" by (simp add: inputUnitBits_eq)
  have s: "inputSignResolved 0xA000 = - 4096" by (simp add: inputSignResolved_closed)
  have f: "inputFinalValue 0xA000 = - 409.6" by (simp add: inputFinalValue_def u s)
  have k: "inputKey 0 = ''S01''" by (simp add: inputKey_def padStart_def digit_char_def)
  have z: "inputFinalValue (byte2short 0 0) = 0"
    by (simp add: byte2short_eq inputFinalValue_def inputUnitBits_eq inputSignResolved_closed)
  have m: "(''inputs.S01'', JNum 0) \<in> set (publishInputs (parseUvrRecord (replicate 57 0)))"
    using publishInputs_member[of 0 "replicate 57 0"] by (simp add: k z byteAt_def)
  show ?thesis
    using C10_input_range[of "0xA000" "replicate 57 0" "''inputs.S01''" 0] u s f m by simp
qed


section \<open>The retry loop\<close>

lemma attemptFetch_done: "\<not> attempt < maxRetries \<Longrightarrow> attemptFetch dev c attempt n p = (p, n)"
  by (simp add: attemptFetch.simps)

lemma attemptFetch_valid:
  assumes "attempt < maxRetries" "dev n c = Inr v" "length v > 1"
  shows "attemptFetch dev c attempt n p = (settle p (Resolved v), Suc n)"
  using assms by (subst attemptFetch.simps) (simp add: sendCommand_def)

lemma attemptFetch_invalid:
  assumes "attempt < maxRetries" "invalidResponse (dev n c)"
  shows "attemptFetch dev c attempt n p =
         attemptFetch dev c (Suc attempt) (Suc n)
           (if Suc attempt \<ge> maxRetries then settle p (Rejected MaxRetriesReached) else p)"
  using assms
  by (subst attemptFetch.simps) (auto simp: sendCommand_def invalidResponse_def split: sum.splits)

lemma attemptFetch_valid_after:
  assumes "\<forall>k<N. invalidResponse (dev (n + k) c)" "dev (n + N) c = Inr v" "length v > 1"
    "attempt + N < maxRetries"
  shows "attemptFetch dev c attempt n Pending = (Resolved v, n + N + 1)"
  using assms
proof (induction N arbitrary: attempt n)
  case 0
  then show ?case by (simp add: attemptFetch_valid settle_def)
next
  case (Suc N)
  have inv: "invalidResponse (dev n c)" using Suc.prems(1) by force
  have lt: "attempt < maxRetries" "\<not> Suc attempt \<ge> maxRetries" using Suc.prems(4) by simp_all
  have step: "attemptFetch dev c attempt n Pending = attemptFetch dev c (Suc attempt) (Suc n) Pending"
    using attemptFetch_invalid[of attempt dev n c Pending] lt inv by simp
  have "attemptFetch dev c (Suc attempt) (Suc n) Pending = (Resolved v, Suc n + N + 1)"
  proof (rule Suc.IH)
    show "\<forall>k<N. invalidResponse (dev (Suc n + k) c)" using Suc.prems(1) by force
    show "dev (Suc n + N) c = Inr v" using Suc.prems(2) by simp
    show "1 < length v" by (rule Suc.prems(3))
    show "Suc attempt + N < maxRetries" using Suc.prems(4) by simp
  qed
  then show ?case using step by simp
qed

lemma attemptFetch_exhausted:
  assumes "\<forall>k<d. invalidResponse (dev (n + k) c)" "attempt + d = maxRetries" "0 < d"
  shows "attemptFetch dev c attempt n Pending = (Rejected MaxRetriesReached, n + d)"
  using assms
proof (induction d arbitrary: attempt n)
  case 0
  then show ?case by simp
next
  case (Suc d)
  have inv: "invalidResponse (dev n c)" using Suc.prems(1) by force
  have lt: "attempt < maxRetries" using Suc.prems(2) by simp
  show ?case
  proof (cases "d = 0")
    case True
    then have last: "Suc attempt \<ge> maxRetries" using Suc.prems(2) by simp
    then have "attemptFetch dev c attempt n Pending =
               attemptFetch dev c (Suc attempt) (Suc n) (Rejected MaxRetriesReached)"
      using attemptFetch_invalid[of attempt dev n c Pending] lt inv by (simp add: settle_def)
    also have "\<dots> = (Rejected MaxRetriesReached, Suc n)"
      using last by (simp add: attemptFetch_done)
    finally show ?thesis using True by simp
  next
    case False
    then have more: "\<not> Suc attempt \<ge> maxRetries" using Suc.prems(2) by simp
    have step: "attemptFetch dev c attempt n Pending = attemptFetch dev c (Suc attempt) (Suc n) Pending"
      using attemptFetch_invalid[of attempt dev n c Pending] lt inv more by simp
    have "attemptFetch dev c (Suc attempt) (Suc n) Pending = (Rejected MaxRetriesReached, Suc n + d)"
    proof (rule Suc.IH)
      show "\<forall>k<d. invalidResponse (dev (Suc n + k) c)" using Suc.prems(1) by force
      show "Suc attempt + d = maxRetries" using Suc.prems(2) by simp
      show "0 < d" using False by simp
    qed
    then show ?thesis using step by simp
  qed
qed

lemma fetchDataBlock_first_valid:
  assumes "\<forall>k<N. invalidResponse (dev (n + k) c)" "dev (n + N) c = Inr v" "length v > 1"
  shows "fetchDataBlockFromDevice dev c n =
         (if N < 5 then (Resolved v, n + N + 1) else (Rejected MaxRetriesReached, n + 5))"
proof (cases "N < 5")
  case True
  then show ?thesis
    using attemptFetch_valid_after[of N dev n c v 0] assms
    by (simp add: fetchDataBlockFromDevice_def maxRetries_def)
next
  case False
  then have "\<forall>k<5. invalidResponse (dev (n + k) c)" using assms(1) by simp
  then show ?thesis
    using attemptFetch_exhausted[of 5 dev n c 0] False
    by (simp add: fetchDataBlockFromDevice_def maxRetries_def)
qed

lemma fetchDataBlock_all_invalid:
  assumes "\<forall>k<5. invalidResponse (dev (n + k) c)"
  shows "fetchDataBlockFromDevice dev c n = (Rejected MaxRetriesReached, n + 5)"
  using attemptFetch_exhausted[of 5 dev n c 0] assms
  by (simp add: fetchDataBlockFromDevice_def maxRetries_def)

text \<open>Every sequence of responses either has a first valid one or has none among the first five.\<close>

lemma fetchDataBlock_cases:
  obtains (valid) N v where "N < 5" "\<forall>k<N. invalidResponse (dev (n + k) c)" "dev (n + N) c = Inr v"
      "length v > 1" "fetchDataBlockFromDevice dev c n = (Resolved v, n + N + 1)"
  | (exhausted) "\<forall>k<5. invalidResponse (dev (n + k) c)"
      "fetchDataBlockFromDevice dev c n = (Rejected MaxRetriesReached, n + 5)"
proof (cases "\<forall>k<5. invalidResponse (dev (n + k) c)")
  case True
  then show ?thesis using exhausted fetchDataBlock_all_invalid by blast
next
  case False
  define N where "N = (LEAST k. \<not> invalidResponse (dev (n + k) c))"
  from False obtain k0 where k0: "k0 < 5" "\<not> invalidResponse (dev (n + k0) c)" by blast
  have nv: "\<not> invalidResponse (dev (n + N) c)" unfolding N_def using k0(2) by (rule LeastI)
  have le: "N \<le> k0" unfolding N_def using k0(2) by (rule Least_le)
  have before: "\<forall>k<N. invalidResponse (dev (n + k) c)"
    unfolding N_def using not_less_Least by blast
  from nv obtain v where v: "dev (n + N) c = Inr v" "length v > 1"
    by (auto simp: invalidResponse_def split: sum.splits)
  have "N < 5" using le k0(1) by simp
  then have "fetchDataBlockFromDevice dev c n = (Resolved v, n + N + 1)"
    using fetchDataBlock_first_valid[of N dev n c v] before v by simp
  then show ?thesis using valid \<open>N < 5\<close> before v by blast
qed

lemma fetchDataBlock_settles:
  "fst (fetchDataBlockFromDevice dev c n) \<noteq> Pending"
  "n < snd (fetchDataBlockFromDevice dev c n)"
  "snd (fetchDataBlockFromDevice dev c n) \<le> n + 5"
  by (cases rule: fetchDataBlock_cases[of dev n c]; simp)+

lemma fetchDataBlock_Resolved:
  assumes "fetchDataBlockFromDevice dev c n = (Resolved data, n')"
  shows "length data > 1"
  using assms by (cases rule: fetchDataBlock_cases[of dev n c]) auto

text \<open>
  C3: when the responses to the first N sends are invalid (rejected, or not longer than
  one byte) and the next response v is longer than one byte, fetchDataBlockFromDevice
  resolves with v unchanged after N + 1 sends if N < 5, and otherwise rejects with the
  exhaustion error after exactly 5 sends; when the first 5 responses are invalid it
  rejects with the exhaustion error after exactly 5 sends; and it always settles, with
  at most 5 sends.
\<close>

theorem C3_retrying_fetch:
  "((\<forall>k<N. invalidResponse (dev (n + k) c)) \<and> dev (n + N) c = Inr v \<and> length v > 1 \<longrightarrow>
      fetchDataBlockFromDevice dev c n =
        (if N < 5 then (Resolved v, n + N + 1) else (Rejected MaxRetriesReached, n + 5))) \<and>
   ((\<forall>k<5. invalidResponse (dev (n + k) c)) \<longrightarrow>
      fetchDataBlockFromDevice dev c n = (Rejected MaxRetriesReached, n + 5)) \<and>
   fst (fetchDataBlockFromDevice dev c n) \<noteq> Pending \<and>
   snd (fetchDataBlockFromDevice dev c n) \<le> n + 5"
  using fetchDataBlock_first_valid[of N dev n c v] fetchDataBlock_all_invalid[of dev n c]
    fetchDataBlock_settles(1,3)[of dev c n]
  by blast

theorem C3_retrying_fetch_witness:
  "fetchDataBlockFromDevice (\<lambda>k c. if k < 2 then Inl SocketError else Inr [0x80, 0x01]) 0xAB 0
     = (Resolved [0x80, 0x01], 3) \<and>
   fetchDataBlockFromDevice (\<lambda>k c. if k < 4 then Inr [0x00] else Inr [0x80, 0x01]) 0xAB 0
     = (Resolved [0x80, 0x01], 5) \<and>
   fetchDataBlockFromDevice (\<lambda>k c. if k < 5 then Inr [0x00] else Inr [0x80, 0x01]) 0xAB 0
     = (Rejected MaxRetriesReached, 5) \<and>
   fetchDataBlockFromDevice (\<lambda>k c. Inl ConnectionClosed) 0xAB 0 = (Rejected MaxRetriesReached, 5)"
proof -
  have a: "fetchDataBlockFromDevice (\<lambda>k c. if k < 2 then Inl SocketError else Inr [0x80, 0x01]) 0xAB 0
     = (Resolved [0x80, 0x01], 3)"
    using C3_retrying_fetch[of 2 "\<lambda>k c. if k < 2 then Inl SocketError else Inr [0x80, 0x01]" 0 "0xAB" "[0x80, 0x01]"]
    by (simp add: invalidResponse_def)
  have b: "fetchDataBlockFromDevice (\<lambda>k c. if k < 4 then Inr [0x00] else Inr [0x80, 0x01]) 0xAB 0
     = (Resolved [0x80, 0x01], 5)"
    using C3_retrying_fetch[of 4 "\<lambda>k c. if k < 4 then Inr [0x00] else Inr [0x80, 0x01]" 0 "0xAB" "[0x80, 0x01]"]
    by (simp add: invalidResponse_def)
  have c: "fetchDataBlockFromDevice (\<lambda>k c. if k < 5 then Inr [0x00] else Inr [0x80, 0x01]) 0xAB 0
     = (Rejected MaxRetriesReached, 5)"
    using C3_retrying_fetch[of 5 "\<lambda>k c. if k < 5 then Inr [0x00] else Inr [0x80, 0x01]" 0 "0xAB" "[0x80, 0x01]"]
    by (simp add: invalidResponse_def)
  have d: "fetchDataBlockFromDevice (\<lambda>k c. Inl ConnectionClosed) 0xAB 0 = (Rejected MaxRetriesReached, 5)"
    using C3_retrying_fetch[of 0 "\<lambda>k c. Inl ConnectionClosed" 0 "0xAB" "[]"]
    by (simp add: invalidResponse_def)
  show ?thesis using a b c d by simp
qed


section \<open>The poll fetch\<close>

lemma fetchStateValues_try_Resolved:
  assumes "fetchDataBlockFromDevice dev READ_CURRENT_DATA n = (Resolved data, n')"
  shows "fetchStateValues_try dev n =
     (if byteAt data 0 = 0x80 then
        (if length data \<ge> 57 then (Resolved (parseUvrRecord (take 57 data)), n')
         else (Rejected InvalidResponse, n'))
      else (Rejected UnexpectedDataFormat, n'))"
  using assms by (simp add: fetchStateValues_try_def readBlock_def)

lemma fetchStateValues_try_Rejected:
  assumes "fetchDataBlockFromDevice dev READ_CURRENT_DATA n = (Rejected e, n')"
  shows "fetchStateValues_try dev n = (Rejected e, n')"
  using assms by (simp add: fetchStateValues_try_def)

lemma fetchStateValues_try_settles: "fst (fetchStateValues_try dev n) \<noteq> Pending"
proof (cases rule: fetchDataBlock_cases[of dev n READ_CURRENT_DATA])
  case (valid N v)
  then show ?thesis by (simp add: fetchStateValues_try_Resolved)
next
  case exhausted
  then show ?thesis by (simp add: fetchStateValues_try_Rejected)
qed

text \<open>The poll fetch never rejects and never stays pending: it resolves, with a record or with undefined.\<close>

lemma fetchStateValues_resolves:
  "\<exists>r. fst (fetchStateValuesFromDevice dev n) = Resolved r"
proof -
  obtain p n' where t: "fetchStateValues_try dev n = (p, n')" by (cases "fetchStateValues_try dev n")
  have "p \<noteq> Pending" using fetchStateValues_try_settles[of dev n] t by simp
  then show ?thesis
    by (cases p) (simp_all add: fetchStateValuesFromDevice_def t)
qed

lemma fetchStateValues_Resolved:
  assumes "fetchDataBlockFromDevice dev READ_CURRENT_DATA n = (Resolved data, n')"
  shows "fetchStateValuesFromDevice dev n =
     (if byteAt data 0 = 0x80 \<and> length data \<ge> 57
      then (Resolved (Some (parseUvrRecord (take 57 data))), n')
      else (Resolved None, n'))"
  by (simp add: fetchStateValuesFromDevice_def fetchStateValues_try_Resolved[OF assms])

lemma fetchStateValues_Rejected:
  assumes "fetchDataBlockFromDevice dev READ_CURRENT_DATA n = (Rejected e, n')"
  shows "fetchStateValuesFromDevice dev n = (Resolved None, n')"
  by (simp add: fetchStateValuesFromDevice_def fetchStateValues_try_Rejected[OF assms])

lemma fetchDataBlock_immediate:
  assumes "dev n c = Inr v" "length v > 1"
  shows "fetchDataBlockFromDevice dev c n = (Resolved v, Suc n)"
  using fetchDataBlock_first_valid[of 0 dev n c v] assms by simp

text \<open>
  C2: the device answers the current-data request with the two bytes 0x81 0x00. The try
  block throws the format error, but fetchStateValuesFromDevice does not fail: its
  promise resolves with undefined.
\<close>

theorem C2_fetch_resolves_undefined:
  "fetchStateValues_try strayDevice 0 = (Rejected UnexpectedDataFormat, 1) \<and>
   fetchStateValuesFromDevice strayDevice 0 = (Resolved None, 1)"
proof -
  have f: "fetchDataBlockFromDevice strayDevice READ_CURRENT_DATA 0 = (Resolved [0x81, 0x00], 1)"
    using fetchDataBlock_immediate[of strayDevice 0 READ_CURRENT_DATA "[0x81, 0x00]"]
    by (simp add: strayDevice_def)
  show ?thesis
    using fetchStateValues_try_Resolved[OF f] fetchStateValues_Resolved[OF f]
    by (simp add: byteAt_def)
qed

section \<open>The header of the device\<close>

lemma header_mode_cases:
  "header_mode len =
     (if len = 13 then Inr (0xA8, ''1DL'')
      else if len = 14 then Inr (0xD1, ''2DL'')
      else if len = 21 then Inr (0xDC, ''CAN'')
      else Inl (UnknownDataLength len))"
  by (simp add: header_mode_def)

lemma readDeviceInfo_unknown_length:
  assumes "dev n VERSION_REQUEST = Inr version"
    "fetchDataBlockFromDevice dev HEADER_READ (Suc n) = (Resolved header, n')"
    "length header \<notin> {13, 14, 21}"
  shows "readDeviceInfo dev n = (Rejected (UnknownDataLength (length header)), n')"
  using assms by (simp add: readDeviceInfo_def sendCommand_def header_mode_def)

lemma readDeviceInfo_known_length:
  assumes "dev n VERSION_REQUEST = Inr version"
    "fetchDataBlockFromDevice dev HEADER_READ (Suc n) = (Resolved header, n')"
    "header_mode (length header) = Inr (mode, mode_str)"
    "dev n' FIRMWARE_REQUEST = Inr fw" "fw \<noteq> []"
    "dev (Suc n') MODE_REQUEST = Inr md" "md \<noteq> []"
  shows "readDeviceInfo dev n =
     (Resolved \<lparr> uvr_mode = mode_str,
                 uvr_type = fst (header_types mode header),
                 uvr2_type = snd (header_types mode header),
                 module_id = ''0x'' @ toHexUpper version,
                 firmware_version = firmwareVersion_str (unat (hd fw)),
                 transmission_mode = transmission_mode_str (byteAt md 0) \<rparr>,
      Suc (Suc n'))"
  using assms by (simp add: readDeviceInfo_def sendCommand_def split: prod.splits)

lemma header_types_1DL:
  "header_types 0xA8 header = (uvr_type_str (byteAt header 5), None)"
  by (simp add: header_types_def)

lemma header_types_2DL:
  "header_types 0xD1 header = (uvr_type_str (byteAt header 5), Some (uvr_type_str (byteAt header 6)))"
  by (simp add: header_types_def)

lemma header_types_CAN:
  "header_types 0xDC header = (''UVR1611'', None)"
  by (simp add: header_types_def uvr_type_str_def)

text \<open>
  C4: after the version exchange and the header fetch, a header whose length is not 13,
  14 or 21 makes readDeviceInfo fail with the unknown-length error; when the length is
  one of the three and the firmware and mode exchanges answer, it resolves, with mode 1DL
  and the type byte of offset 5 for 13 bytes, with mode 2DL and the type bytes of offsets
  5 and 6 for 14 bytes, and with mode CAN and type UVR1611, whatever the header holds,
  for 21 bytes. A type byte 0x5A is UVR61-3, 0x76 is UVR1611, any other byte Unknown.
\<close>

theorem C4_readDeviceInfo_header:
  "(dev n VERSION_REQUEST = Inr version \<and>
    fetchDataBlockFromDevice dev HEADER_READ (Suc n) = (Resolved header, n') \<longrightarrow>
      (length header \<notin> {13, 14, 21} \<longrightarrow>
         readDeviceInfo dev n = (Rejected (UnknownDataLength (length header)), n')) \<and>
      (length header \<in> {13, 14, 21} \<and> dev n' FIRMWARE_REQUEST = Inr fw \<and> fw \<noteq> [] \<and>
       dev (Suc n') MODE_REQUEST = Inr md \<and> md \<noteq> [] \<longrightarrow>
         (\<exists>info. readDeviceInfo dev n = (Resolved info, Suc (Suc n')) \<and>
            (length header = 13 \<longrightarrow>
               uvr_mode info = ''1DL'' \<and> uvr_type info = uvr_type_str (byteAt header 5) \<and>
               uvr2_type info = None) \<and>
            (length header = 14 \<longrightarrow>
               uvr_mode info = ''2DL'' \<and> uvr_type info = uvr_type_str (byteAt header 5) \<and>
               uvr2_type info = Some (uvr_type_str (byteAt header 6))) \<and>
            (length header = 21 \<longrightarrow>
               uvr_mode info = ''CAN'' \<and> uvr_type info = ''UVR1611'' \<and> uvr2_type info = None)))) \<and>
   uvr_type_str 0x5A = ''UVR61-3'' \<and> uvr_type_str 0x76 = ''UVR1611'' \<and>
   (t \<noteq> 0x5A \<and> t \<noteq> 0x76 \<longrightarrow> uvr_type_str t = ''Unknown'')"
proof -
  have types: "uvr_type_str 0x5A = ''UVR61-3'' \<and> uvr_type_str 0x76 = ''UVR1611'' \<and>
      (t \<noteq> 0x5A \<and> t \<noteq> 0x76 \<longrightarrow> uvr_type_str t = ''Unknown'')"
    by (simp add: uvr_type_str_def)
  {
    assume v: "dev n VERSION_REQUEST = Inr version"
      and h: "fetchDataBlockFromDevice dev HEADER_READ (Suc n) = (Resolved header, n')"
    have bad: "length header \<notin> {13, 14, 21} \<longrightarrow>
        readDeviceInfo dev n = (Rejected (UnknownDataLength (length header)), n')"
      using readDeviceInfo_unknown_length[OF v h] by blast
    {
      assume len: "length header \<in> {13, 14, 21}"
        and f: "dev n' FIRMWARE_REQUEST = Inr fw" "fw \<noteq> []"
        and m: "dev (Suc n') MODE_REQUEST = Inr md" "md \<noteq> []"
      obtain mode mode_str where hm: "header_mode (length header) = Inr (mode, mode_str)"
        using len by (auto simp: header_mode_def)
      note r = readDeviceInfo_known_length[OF v h hm f m]
      have "\<exists>info. readDeviceInfo dev n = (Resolved info, Suc (Suc n')) \<and>
            (length header = 13 \<longrightarrow>
               uvr_mode info = ''1DL'' \<and> uvr_type info = uvr_type_str (byteAt header 5) \<and>
               uvr2_type info = None) \<and>
            (length header = 14 \<longrightarrow>
               uvr_mode info = ''2DL'' \<and> uvr_type info = uvr_type_str (byteAt header 5) \<and>
               uvr2_type info = Some (uvr_type_str (byteAt header 6))) \<and>
            (length header = 21 \<longrightarrow>
               uvr_mode info = ''CAN'' \<and> uvr_type info = ''UVR1611'' \<and> uvr2_type info = None)"
        using hm unfolding r
        by (auto simp: header_mode_def header_types_1DL header_types_2DL header_types_CAN
            split: if_splits)
    }
    then have "(length header \<notin> {13, 14, 21} \<longrightarrow>
         readDeviceInfo dev n = (Rejected (UnknownDataLength (length header)), n')) \<and>
      (length header \<in> {13, 14, 21} \<and> dev n' FIRMWARE_REQUEST = Inr fw \<and> fw \<noteq> [] \<and>
       dev (Suc n') MODE_REQUEST = Inr md \<and> md \<noteq> [] \<longrightarrow>
         (\<exists>info. readDeviceInfo dev n = (Resolved info, Suc (Suc n')) \<and>
            (length header = 13 \<longrightarrow>
               uvr_mode info = ''1DL'' \<and> uvr_type info = uvr_type_str (byteAt header 5) \<and>
               uvr2_type info = None) \<and>
            (length header = 14 \<longrightarrow>
               uvr_mode info = ''2DL'' \<and> uvr_type info = uvr_type_str (byteAt header 5) \<and>
               uvr2_type info = Some (uvr_type_str (byteAt header 6))) \<and>
            (length header = 21 \<longrightarrow>
               uvr_mode info = ''CAN'' \<and> uvr_type info = ''UVR1611'' \<and> uvr2_type info = None)))"
      using bad by blast
  }
  then show ?thesis using types by blast
qed

lemma exampleDevice_header:
  "fetchDataBlockFromDevice exampleDevice HEADER_READ (Suc 0) = (Resolved exampleHeader, 2)"
  using fetchDataBlock_immediate[of exampleDevice "Suc 0" HEADER_READ exampleHeader]
  by (simp add: exampleDevice_def exampleHeader_def)

lemma exampleHeader_facts: "length exampleHeader = 13" "byteAt exampleHeader 5 = 0x76"
  by (simp_all add: exampleHeader_def byteAt_def)

lemma strayDevice_header:
  "fetchDataBlockFromDevice strayDevice HEADER_READ (Suc 0) = (Resolved [0x81, 0x00], 2)"
  using fetchDataBlock_immediate[of strayDevice "Suc 0" HEADER_READ "[0x81, 0x00]"]
  by (simp add: strayDevice_def)

theorem C4_readDeviceInfo_header_witness:
  "(\<exists>info. readDeviceInfo exampleDevice 0 = (Resolved info, 4) \<and>
      uvr_mode info = ''1DL'' \<and> uvr_type info = ''UVR1611'' \<and> uvr2_type info = None) \<and>
   readDeviceInfo strayDevice 0 = (Rejected (UnknownDataLength 2), 2)"
proof -
  have a: "\<exists>info. readDeviceInfo exampleDevice 0 = (Resolved info, 4) \<and>
      uvr_mode info = ''1DL'' \<and> uvr_type info = ''UVR1611'' \<and> uvr2_type info = None"
    using C4_readDeviceInfo_header[of exampleDevice 0 "[0x01]" exampleHeader 2 "[0xF5]" "[0x80]" 0]
      exampleDevice_header exampleHeader_facts
    by (simp add: exampleDevice_def uvr_type_str_def)
  have b: "readDeviceInfo strayDevice 0 = (Rejected (UnknownDataLength 2), 2)"
    using C4_readDeviceInfo_header[of strayDevice 0 "[0x81, 0x00]" "[0x81, 0x00]" 2 "[]" "[]" 0]
      strayDevice_header
    by (simp add: strayDevice_def)
  show ?thesis using a b by simp
qed


section \<open>The record decoder\<close>

lemma js_and_bit:
  assumes "0 \<le> x" "x < 65536" "k < 16"
  shows "truthy (js_and x (2 ^ k)) = bit x k"
proof -
  have "(2::int) ^ k < 2 ^ 16" using assms(3) by (intro power_strict_increasing) simp_all
  then have p: "(2::int) ^ k < 2 ^ 31" by simp
  have q: "- (2 ^ 31) \<le> (2::int) ^ k"
  proof -
    have "- (2 ^ 31) \<le> (0::int)" "(0::int) \<le> 2 ^ k" by simp_all
    then show ?thesis by (rule order_trans)
  qed
  have "js_and x (2 ^ k) = x AND 2 ^ k"
    using assms p q by (intro js_and_int32) simp_all
  then show ?thesis by (simp add: truthy_def and_exp_eq_0_iff_not_bit)
qed

lemma on_off_bit:
  assumes "0 \<le> x" "x < 65536" "k < 16"
  shows "on_off (js_and x (2 ^ k)) = (if bit x k then ''ON'' else ''OFF'')"
  by (simp add: on_off_def js_and_bit[OF assms])

lemma active_inactive_bit:
  assumes "0 \<le> x" "x < 65536" "k < 16"
  shows "active_inactive (js_and x (2 ^ k)) = (if bit x k then ''active'' else ''inactive'')"
  by (simp add: active_inactive_def js_and_bit[OF assms])

lemma output_word:
  "byte2short (byteAt response 33) (byteAt response 34) = byteAt response 33 + 256 * byteAt response 34"
  "0 \<le> byte2short (byteAt response 33) (byteAt response 34)"
  "byte2short (byteAt response 33) (byteAt response 34) < 65536"
  using byteAt_range[of response 33] byteAt_range[of response 34]
  by (simp_all add: byte2short_eq)

lemma outputs_parseUvrRecord:
  "outputs (parseUvrRecord response) = outputBits (byteAt response 33 + 256 * byteAt response 34)"
proof -
  define w where "w = byte2short (byteAt response 33) (byteAt response 34)"
  have w: "0 \<le> w" "w < 65536" unfolding w_def by (rule output_word)+
  have b: "\<And>k. k < 16 \<Longrightarrow> on_off (js_and w (2 ^ k)) = (if bit w k then ''ON'' else ''OFF'')"
    by (rule on_off_bit[OF w])
  have "outputs (parseUvrRecord response) = outputBits w"
    unfolding parseUvrRecord_def Let_def w_def[symmetric] outputBits_def
    using b[of 0] b[of 1] b[of 2] b[of 3] b[of 4] b[of 5] b[of 6] b[of 7] b[of 8] b[of 9]
      b[of 10] b[of 11] b[of 12]
    by simp
  then show ?thesis by (simp add: w_def output_word(1))
qed

lemma speed_levels_parseUvrRecord:
  "speed_levels (parseUvrRecord response) =
     [(''DzA1'', byteAt response 35), (''DzA2'', byteAt response 36),
      (''DzA6'', byteAt response 37), (''DzA7'', byteAt response 38)]"
  by (simp add: parseUvrRecord_def Let_def)

lemma wmz_bit:
  assumes "k < 16"
  shows "truthy (js_and (byteAt response 39) (2 ^ k)) = bit (byteAt response 39) k"
  using byteAt_range[of response 39] by (intro js_and_bit assms) simp_all

lemma status_parseUvrRecord:
  "thermal_energy_counters_status (parseUvrRecord response) =
     [(''wmz1'', if bit (byteAt response 39) 0 then ''active'' else ''inactive''),
      (''wmz2'', if bit (byteAt response 39) 1 then ''active'' else ''inactive'')]"
  using wmz_bit[of 0 response] wmz_bit[of 1 response]
  by (simp add: parseUvrRecord_def Let_def active_inactive_def)

lemma counters_parseUvrRecord:
  "thermal_energy_counters (parseUvrRecord response) =
     (if bit (byteAt response 39) 0
      then [(''current_heat_power1'',
               heat_power (byteAt response 40) (byteAt response 41)
                          (byteAt response 42) (byteAt response 43)),
            (''total_heat_energy1'',
               heat_energy (byteAt response 44) (byteAt response 45)
                           (byteAt response 46) (byteAt response 47))]
      else [(''current_heat_power1'', 0), (''total_heat_energy1'', 0)]) @
     (if bit (byteAt response 39) 1
      then [(''current_heat_power2'',
               heat_power (byteAt response 48) (byteAt response 49)
                          (byteAt response 50) (byteAt response 51)),
            (''total_heat_energy2'',
               heat_energy (byteAt response 52) (byteAt response 53)
                           (byteAt response 54) (byteAt response 55))]
      else [(''current_heat_power2'', 0), (''total_heat_energy2'', 0)])"
  using wmz_bit[of 0 response] wmz_bit[of 1 response]
  by (simp add: parseUvrRecord_def Let_def)

lemma byte2int_bytes:
  assumes "0 \<le> a" "a < 256" "0 \<le> b" "b < 256" "0 \<le> c" "c < 256"
  shows "byte2int a b c 0 = a + 256 * b + 65536 * c"
proof -
  have lo: "byte2short a b = b * 256 + a" using assms by (simp add: byte2short_eq)
  have lo_range: "0 \<le> b * 256 + a" "b * 256 + a < 65536" using assms by simp_all
  have m: "js_and (b * 256 + a) 0xFFFF = b * 256 + a"
    using lo_range by (simp add: js_and_int32 and_65535)
  have hi: "byte2short c 0 = c" using assms by (simp add: byte2short_eq)
  have sh: "js_shl c 16 = c * 65536" using assms by (simp add: js_shl_16)
  have "js_or (b * 256 + a) (c * 65536) = (b * 256 + a) OR (c * 65536)"
    using lo_range assms by (intro js_or_int32) simp_all
  also have "\<dots> = (c * 2 ^ 16) OR (b * 256 + a)" by (simp add: or.commute)
  also have "\<dots> = c * 2 ^ 16 + (b * 256 + a)" using lo_range by (intro or_shifted) simp_all
  finally show ?thesis by (simp add: byte2int_def lo m hi sh)
qed

lemma magnitude_bits:
  assumes "0 \<le> a" "a < 256" "0 \<le> b" "b < 256"
  shows "a OR push_bit 8 b OR push_bit 16 c = a + 256 * b + 65536 * (c::int)"
proof -
  have "a OR push_bit 8 b = (b * 2 ^ 8) OR a" by (simp add: push_bit_eq_mult or.commute)
  also have "\<dots> = b * 2 ^ 8 + a" using assms by (intro or_shifted) simp_all
  finally have ab: "a OR push_bit 8 b = b * 256 + a" by simp
  have r: "0 \<le> b * 256 + a" "b * 256 + a < 2 ^ 16" using assms by simp_all
  have "a OR push_bit 8 b OR push_bit 16 c = (a OR push_bit 8 b) OR push_bit 16 c"
    by (simp only: or.assoc)
  also have "\<dots> = (b * 256 + a) OR push_bit 16 c"
    by (simp only: ab)
  also have "\<dots> = (c * 2 ^ 16) OR (b * 256 + a)"
    by (simp add: push_bit_eq_mult or.commute)
  also have "\<dots> = c * 2 ^ 16 + (b * 256 + a)" using r by (rule or_shifted)
  finally show ?thesis by simp
qed

lemma signCheck_byte: "0 \<le> hh \<Longrightarrow> hh < 256 \<Longrightarrow> \<not> signCheck hh"
  by (simp add: signCheck_def)

lemma heat_power_bytes:
  assumes "0 \<le> ll" "ll < 256" "0 \<le> lh" "lh < 256" "0 \<le> hl" "hl < 256" "0 \<le> hh" "hh < 256"
  shows "heat_power ll lh hl hh =
         (10 * real_of_int (lh OR push_bit 8 hl OR push_bit 16 hh) + real_of_int ll * 10 / 256) / 100"
  using assms
  by (simp add: heat_power_def Let_def signCheck_byte byte2int_bytes magnitude_bits)

lemma heat_power_nonneg:
  assumes "0 \<le> ll" "ll < 256" "0 \<le> lh" "lh < 256" "0 \<le> hl" "hl < 256" "0 \<le> hh" "hh < 256"
  shows "0 \<le> heat_power ll lh hl hh"
proof -
  have "0 \<le> lh + 256 * hl + 65536 * hh" using assms by simp
  then have m: "0 \<le> real_of_int (byte2int lh hl hh 0)"
    using assms by (simp add: byte2int_bytes)
  have l: "0 \<le> real_of_int ll" using assms by simp
  show ?thesis
    using assms m l by (simp add: heat_power_def Let_def signCheck_byte)
qed

lemma heat_power_at:
  "heat_power (byteAt r i) (byteAt r j) (byteAt r k) (byteAt r l) =
     (10 * real_of_int (byteAt r j OR push_bit 8 (byteAt r k) OR push_bit 16 (byteAt r l))
      + real_of_int (byteAt r i) * 10 / 256) / 100"
  by (intro heat_power_bytes byteAt_range)

lemma heat_power_at_nonneg:
  "0 \<le> heat_power (byteAt r i) (byteAt r j) (byteAt r k) (byteAt r l)"
  by (intro heat_power_nonneg byteAt_range)


lemma syntheticRecord_bytes:
  "length syntheticRecord = 57"
  "byteAt syntheticRecord 0 = 0x80"
  "byteAt syntheticRecord 33 = 0x05" "byteAt syntheticRecord 34 = 0x00"
  "byteAt syntheticRecord 35 = 30" "byteAt syntheticRecord 36 = 14"
  "byteAt syntheticRecord 37 = 0" "byteAt syntheticRecord 38 = 158"
  "byteAt syntheticRecord 39 = 0x01"
  by (simp_all add: syntheticRecord_def byteAt_def)

lemma counterRecord_bytes:
  "length counterRecord = 57"
  "byteAt counterRecord 39 = 0x01"
  "byteAt counterRecord 40 = 0" "byteAt counterRecord 41 = 100"
  "byteAt counterRecord 42 = 0" "byteAt counterRecord 43 = 0"
  by (simp_all add: counterRecord_def byteAt_def)

lemma outputBits_5:
  "outputBits 5 =
     [(''A01'', ''ON''), (''A02'', ''OFF''), (''A03'', ''ON''), (''A04'', ''OFF''),
      (''A05'', ''OFF''), (''A06'', ''OFF''), (''A07'', ''OFF''), (''A08'', ''OFF''),
      (''A09'', ''OFF''), (''A10'', ''OFF''), (''A11'', ''OFF''), (''A12'', ''OFF''),
      (''A13'', ''OFF'')]"
  by (simp add: outputBits_def bit_iff_odd)

lemma counter2_inactive:
  assumes "\<not> bit (byteAt response 39) 1"
  shows "map_of (thermal_energy_counters (parseUvrRecord response)) ''current_heat_power2'' = Some 0"
    and "map_of (thermal_energy_counters (parseUvrRecord response)) ''total_heat_energy2'' = Some 0"
  using assms by (simp_all add: counters_parseUvrRecord)

lemma counter1_inactive:
  assumes "\<not> bit (byteAt response 39) 0"
  shows "map_of (thermal_energy_counters (parseUvrRecord response)) ''current_heat_power1'' = Some 0"
    and "map_of (thermal_energy_counters (parseUvrRecord response)) ''total_heat_energy1'' = Some 0"
  using assms by (simp_all add: counters_parseUvrRecord)

lemma counter1_power:
  "map_of (thermal_energy_counters (parseUvrRecord response)) ''current_heat_power1'' =
     Some (if bit (byteAt response 39) 0
           then heat_power (byteAt response 40) (byteAt response 41)
                           (byteAt response 42) (byteAt response 43)
           else 0)"
  by (simp add: counters_parseUvrRecord)

lemma counter2_power:
  "map_of (thermal_energy_counters (parseUvrRecord response)) ''current_heat_power2'' =
     Some (if bit (byteAt response 39) 1
           then heat_power (byteAt response 48) (byteAt response 49)
                           (byteAt response 50) (byteAt response 51)
           else 0)"
  by (simp add: counters_parseUvrRecord)

text \<open>
  C5, as stated: decoding the synthetic record gives DzA2 = 30. It does not: byte 36,
  which is 14, is the one assigned to DzA2.
\<close>

theorem C5_DzA2_counterexample:
  "\<not> (map_of (speed_levels (parseUvrRecord syntheticRecord)) ''DzA2'' = Some 30) \<and>
   map_of (speed_levels (parseUvrRecord syntheticRecord)) ''DzA2'' = Some 14"
  by (simp add: speed_levels_parseUvrRecord syntheticRecord_bytes)

text \<open>
  C5, amended: the outputs of every record are bits 0 to 12 of the little-endian word of
  bytes 33 and 34, a set bit "ON" and a clear bit "OFF". For a 57-byte record with the
  outputs word 0x0005, the speed bytes 30, 14, 0, 158 in bytes 35 to 38 and the status
  byte 0x01: A01 and A03 are "ON" and all other outputs "OFF"; the speed bytes are
  assigned in order, DzA1 = 30, DzA2 = 14, DzA6 = 0, DzA7 = 158; wmz1 is active and wmz2
  inactive; and both fields of counter 2 are 0.
\<close>

theorem C5_synthetic_record:
  "outputs (parseUvrRecord response) = outputBits (byteAt response 33 + 256 * byteAt response 34) \<and>
   (length response = 57 \<and> byteAt response 33 = 0x05 \<and> byteAt response 34 = 0x00 \<and>
    byteAt response 35 = 30 \<and> byteAt response 36 = 14 \<and> byteAt response 37 = 0 \<and>
    byteAt response 38 = 158 \<and> byteAt response 39 = 0x01 \<longrightarrow>
      outputs (parseUvrRecord response) =
        [(''A01'', ''ON''), (''A02'', ''OFF''), (''A03'', ''ON''), (''A04'', ''OFF''),
         (''A05'', ''OFF''), (''A06'', ''OFF''), (''A07'', ''OFF''), (''A08'', ''OFF''),
         (''A09'', ''OFF''), (''A10'', ''OFF''), (''A11'', ''OFF''), (''A12'', ''OFF''),
         (''A13'', ''OFF'')] \<and>
      speed_levels (parseUvrRecord response) =
        [(''DzA1'', 30), (''DzA2'', 14), (''DzA6'', 0), (''DzA7'', 158)] \<and>
      thermal_energy_counters_status (parseUvrRecord response) =
        [(''wmz1'', ''active''), (''wmz2'', ''inactive'')] \<and>
      map_of (thermal_energy_counters (parseUvrRecord response)) ''current_heat_power2'' = Some 0 \<and>
      map_of (thermal_energy_counters (parseUvrRecord response)) ''total_heat_energy2'' = Some 0)"
proof -
  {
    assume a: "byteAt response 33 = 0x05" "byteAt response 34 = 0x00"
      "byteAt response 35 = 30" "byteAt response 36 = 14" "byteAt response 37 = 0"
      "byteAt response 38 = 158" "byteAt response 39 = 0x01"
    have o: "outputs (parseUvrRecord response) = outputBits 5"
      by (simp add: outputs_parseUvrRecord a)
    have s: "speed_levels (parseUvrRecord response) =
        [(''DzA1'', 30), (''DzA2'', 14), (''DzA6'', 0), (''DzA7'', 158)]"
      by (simp add: speed_levels_parseUvrRecord a)
    have w: "bit (byteAt response 39) 0" "\<not> bit (byteAt response 39) 1"
      by (simp_all add: a)
    have t: "thermal_energy_counters_status (parseUvrRecord response) =
        [(''wmz1'', ''active''), (''wmz2'', ''inactive'')]"
      using w by (simp add: status_parseUvrRecord)
    note o[unfolded outputBits_5] s t counter2_inactive[OF w(2)]
  }
  then show ?thesis using outputs_parseUvrRecord[of response] by blast
qed

theorem C5_synthetic_record_witness:
  "length syntheticRecord = 57 \<and> byteAt syntheticRecord 33 = 0x05 \<and>
   byteAt syntheticRecord 34 = 0x00 \<and> byteAt syntheticRecord 35 = 30 \<and>
   byteAt syntheticRecord 36 = 14 \<and> byteAt syntheticRecord 37 = 0 \<and>
   byteAt syntheticRecord 38 = 158 \<and> byteAt syntheticRecord 39 = 0x01 \<and>
   map_of (outputs (parseUvrRecord syntheticRecord)) ''A01'' = Some ''ON'' \<and>
   map_of (outputs (parseUvrRecord syntheticRecord)) ''A02'' = Some ''OFF'' \<and>
   map_of (outputs (parseUvrRecord syntheticRecord)) ''A03'' = Some ''ON'' \<and>
   speed_levels (parseUvrRecord syntheticRecord) =
     [(''DzA1'', 30), (''DzA2'', 14), (''DzA6'', 0), (''DzA7'', 158)] \<and>
   thermal_energy_counters_status (parseUvrRecord syntheticRecord) =
     [(''wmz1'', ''active''), (''wmz2'', ''inactive'')] \<and>
   map_of (thermal_energy_counters (parseUvrRecord syntheticRecord)) ''current_heat_power2'' = Some 0 \<and>
   map_of (thermal_energy_counters (parseUvrRecord syntheticRecord)) ''total_heat_energy2'' = Some 0"
  using C5_synthetic_record[of syntheticRecord] by (simp add: syntheticRecord_bytes outputBits_5)

text \<open>
  C6: for a 57-byte record, the power of a counter whose status bit is set is
  (10 * magnitude + hundredths) / 100, with hundredths = ll * 10 / 256 over the reals
  and magnitude = lh OR (hl shifted by 8) OR (hh shifted by 16), the bytes ll, lh, hl, hh
  being bytes 40 to 43 for counter 1 (status bit 0 of byte 39) and bytes 48 to 51 for
  counter 2 (status bit 1); when the status bit is clear, the power and the energy of
  that counter are 0. The bytes 0, 100, 0, 0 give the power 10.
\<close>

theorem C6_counter_power:
  "(length response = 57 \<longrightarrow>
      map_of (thermal_energy_counters (parseUvrRecord response)) ''current_heat_power1'' =
        Some (if bit (byteAt response 39) 0
              then (10 * real_of_int (byteAt response 41 OR push_bit 8 (byteAt response 42)
                                        OR push_bit 16 (byteAt response 43))
                    + real_of_int (byteAt response 40) * 10 / 256) / 100
              else 0) \<and>
      map_of (thermal_energy_counters (parseUvrRecord response)) ''current_heat_power2'' =
        Some (if bit (byteAt response 39) 1
              then (10 * real_of_int (byteAt response 49 OR push_bit 8 (byteAt response 50)
                                        OR push_bit 16 (byteAt response 51))
                    + real_of_int (byteAt response 48) * 10 / 256) / 100
              else 0) \<and>
      (\<not> bit (byteAt response 39) 0 \<longrightarrow>
         map_of (thermal_energy_counters (parseUvrRecord response)) ''total_heat_energy1'' = Some 0) \<and>
      (\<not> bit (byteAt response 39) 1 \<longrightarrow>
         map_of (thermal_energy_counters (parseUvrRecord response)) ''total_heat_energy2'' = Some 0)) \<and>
   heat_power 0 100 0 0 = 10"
proof -
  have p1: "map_of (thermal_energy_counters (parseUvrRecord response)) ''current_heat_power1'' =
        Some (if bit (byteAt response 39) 0
              then (10 * real_of_int (byteAt response 41 OR push_bit 8 (byteAt response 42)
                                        OR push_bit 16 (byteAt response 43))
                    + real_of_int (byteAt response 40) * 10 / 256) / 100
              else 0)"
    unfolding counter1_power heat_power_at ..
  have p2: "map_of (thermal_energy_counters (parseUvrRecord response)) ''current_heat_power2'' =
        Some (if bit (byteAt response 39) 1
              then (10 * real_of_int (byteAt response 49 OR push_bit 8 (byteAt response 50)
                                        OR push_bit 16 (byteAt response 51))
                    + real_of_int (byteAt response 48) * 10 / 256) / 100
              else 0)"
    unfolding counter2_power heat_power_at ..
  have e: "heat_power 0 100 0 0 = 10"
    using heat_power_bytes[of 0 100 0 0] by (simp add: push_bit_eq_mult)
  show ?thesis
    using p1 p2 e counter1_inactive(2)[of response] counter2_inactive(2)[of response] by blast
qed

theorem C6_counter_power_witness:
  "length counterRecord = 57 \<and> bit (byteAt counterRecord 39) 0 \<and> \<not> bit (byteAt counterRecord 39) 1 \<and>
   map_of (thermal_energy_counters (parseUvrRecord counterRecord)) ''current_heat_power1'' = Some 10 \<and>
   map_of (thermal_energy_counters (parseUvrRecord counterRecord)) ''current_heat_power2'' = Some 0 \<and>
   map_of (thermal_energy_counters (parseUvrRecord counterRecord)) ''total_heat_energy2'' = Some 0"
  using C6_counter_power[of counterRecord]
  by (simp add: counterRecord_bytes push_bit_eq_mult)

text \<open>
  C7: for every 57-byte record the guard of the sign check is false for both counters
  (the byte it tests is at most 255), so the negating branch is never taken, and the
  power computed for either counter is not negative.
\<close>

theorem C7_sign_check_dead:
  "length response = 57 \<longrightarrow>
     \<not> signCheck (byteAt response 43) \<and> \<not> signCheck (byteAt response 51) \<and>
     (\<forall>key v. (key, v) \<in> set (thermal_energy_counters (parseUvrRecord response)) \<and>
              (key = ''current_heat_power1'' \<or> key = ''current_heat_power2'') \<longrightarrow> 0 \<le> v)"
proof -
  have s: "\<not> signCheck (byteAt response 43)" "\<not> signCheck (byteAt response 51)"
    by (rule signCheck_byte[OF byteAt_range])+
  have "0 \<le> v" if "(key, v) \<in> set (thermal_energy_counters (parseUvrRecord response))"
    and "key = ''current_heat_power1'' \<or> key = ''current_heat_power2''" for key v
    using that heat_power_at_nonneg[of response 40 41 42 43]
      heat_power_at_nonneg[of response 48 49 50 51]
    by (auto simp: counters_parseUvrRecord split: if_splits)
  then show ?thesis using s by blast
qed

theorem C7_sign_check_dead_witness:
  "length counterRecord = 57 \<and> \<not> signCheck (byteAt counterRecord 43) \<and>
   \<not> signCheck (byteAt counterRecord 51) \<and>
   (''current_heat_power1'', 10) \<in> set (thermal_energy_counters (parseUvrRecord counterRecord)) \<and>
   (0::real) \<le> 10 \<and> signCheck 40000"
proof -
  have m: "(''current_heat_power1'', 10) \<in> set (thermal_energy_counters (parseUvrRecord counterRecord))"
    using heat_power_bytes[of 0 100 0 0]
    by (simp add: counters_parseUvrRecord counterRecord_bytes push_bit_eq_mult)
  have g: "signCheck 40000" by (simp add: signCheck_def)
  show ?thesis
    using C7_sign_check_dead[of counterRecord] m g by (simp add: counterRecord_bytes)
qed

section \<open>The example devices\<close>

lemma exampleDevice_readDeviceInfo: "readDeviceInfo exampleDevice 0 = (Resolved exampleInfo, 4)"
proof -
  have hm: "header_mode (length exampleHeader) = Inr (0xA8, ''1DL'')"
    by (simp add: exampleHeader_facts header_mode_def)
  have "readDeviceInfo exampleDevice 0 =
     (Resolved \<lparr> uvr_mode = ''1DL'',
                 uvr_type = fst (header_types 0xA8 exampleHeader),
                 uvr2_type = snd (header_types 0xA8 exampleHeader),
                 module_id = ''0x'' @ toHexUpper [0x01],
                 firmware_version = firmwareVersion_str (unat (hd [0xF5::byte])),
                 transmission_mode = transmission_mode_str (byteAt [0x80] 0) \<rparr>,
      Suc (Suc 2))"
    by (rule readDeviceInfo_known_length[OF _ exampleDevice_header hm])
       (simp_all add: exampleDevice_def)
  moreover have "toHexUpper [0x01] = ''01''" by (simp add: toHexUpper_def hex_char_def)
  moreover have "firmwareVersion_str (unat (hd [0xF5::byte])) = ''2.45''"
    by (simp add: firmwareVersion_str_def digit_char_def)
  moreover have "transmission_mode_str (byteAt [0x80] 0) = ''Current Data''"
    by (simp add: transmission_mode_str_def byteAt_def)
  ultimately show ?thesis
    by (simp add: exampleInfo_def header_types_1DL exampleHeader_facts uvr_type_str_def)
qed

lemma exampleDevice_fetch:
  assumes "4 \<le> n"
  shows "fetchStateValuesFromDevice exampleDevice n = (Resolved (Some (parseUvrRecord syntheticRecord)), Suc n)"
proof -
  have d: "exampleDevice n READ_CURRENT_DATA = Inr syntheticRecord"
    using assms by (simp add: exampleDevice_def)
  have f: "fetchDataBlockFromDevice exampleDevice READ_CURRENT_DATA n = (Resolved syntheticRecord, Suc n)"
    using fetchDataBlock_immediate[of exampleDevice n READ_CURRENT_DATA syntheticRecord] d
    by (simp add: syntheticRecord_bytes)
  show ?thesis
    using fetchStateValues_Resolved[OF f] by (simp add: syntheticRecord_bytes)
qed

lemma exampleDevice_probe:
  "readSystemConfiguration exampleDevice 0 = (Resolved exampleConfiguration, 5)"
  using exampleDevice_fetch[of 4]
  by (simp add: readSystemConfiguration_def exampleDevice_readDeviceInfo exampleConfiguration_def)

lemma deadDevice_fetch:
  "fetchStateValuesFromDevice deadDevice n = (Resolved None, n + 5)"
proof -
  have "fetchDataBlockFromDevice deadDevice READ_CURRENT_DATA n = (Rejected MaxRetriesReached, n + 5)"
    by (rule fetchDataBlock_all_invalid) (simp add: deadDevice_def invalidResponse_def)
  then show ?thesis by (rule fetchStateValues_Rejected)
qed

lemma deadDevice_probe:
  "readSystemConfiguration deadDevice 0 = (Resolved failedConfiguration, 1)"
  by (simp add: readSystemConfiguration_def readDeviceInfo_def sendCommand_def deadDevice_def)

lemma fadingDevice_probe:
  "readSystemConfiguration fadingDevice 0 = (Resolved exampleConfiguration, 5)"
proof -
  have h: "fetchDataBlockFromDevice fadingDevice HEADER_READ (Suc 0) = (Resolved exampleHeader, 2)"
    using fetchDataBlock_immediate[of fadingDevice "Suc 0" HEADER_READ exampleHeader]
    by (simp add: fadingDevice_def exampleDevice_def exampleHeader_def)
  have hm: "header_mode (length exampleHeader) = Inr (0xA8, ''1DL'')"
    by (simp add: exampleHeader_facts header_mode_def)
  have "readDeviceInfo fadingDevice 0 =
     (Resolved \<lparr> uvr_mode = ''1DL'',
                 uvr_type = fst (header_types 0xA8 exampleHeader),
                 uvr2_type = snd (header_types 0xA8 exampleHeader),
                 module_id = ''0x'' @ toHexUpper [0x01],
                 firmware_version = firmwareVersion_str (unat (hd [0xF5::byte])),
                 transmission_mode = transmission_mode_str (byteAt [0x80] 0) \<rparr>,
      Suc (Suc 2))"
    by (rule readDeviceInfo_known_length[OF _ h hm])
       (simp_all add: fadingDevice_def exampleDevice_def)
  then have i: "readDeviceInfo fadingDevice 0 = readDeviceInfo exampleDevice 0"
    using readDeviceInfo_known_length[OF _ exampleDevice_header hm, of "[0x01]" "[0xF5]" "[0x80]"]
    by (simp add: exampleDevice_def)
  have d: "fadingDevice 4 READ_CURRENT_DATA = Inr syntheticRecord"
    by (simp add: fadingDevice_def exampleDevice_def)
  have f: "fetchDataBlockFromDevice fadingDevice READ_CURRENT_DATA 4 = (Resolved syntheticRecord, Suc 4)"
    using fetchDataBlock_immediate[of fadingDevice 4 READ_CURRENT_DATA syntheticRecord] d
    by (simp add: syntheticRecord_bytes)
  have "fetchStateValuesFromDevice fadingDevice 4 = (Resolved (Some (parseUvrRecord syntheticRecord)), 5)"
    using fetchStateValues_Resolved[OF f] by (simp add: syntheticRecord_bytes)
  then show ?thesis
    by (simp add: readSystemConfiguration_def i exampleDevice_readDeviceInfo exampleConfiguration_def)
qed

lemma fadingDevice_fetch:
  "fetchStateValuesFromDevice fadingDevice 5 = (Resolved None, 10)"
proof -
  have "fetchDataBlockFromDevice fadingDevice READ_CURRENT_DATA 5 = (Rejected MaxRetriesReached, 5 + 5)"
    by (rule fetchDataBlock_all_invalid) (simp add: fadingDevice_def invalidResponse_def)
  then show ?thesis using fetchStateValues_Rejected by simp
qed

section \<open>Units of the probe and of the poll\<close>

lemma determineUnit_spec: "determineUnit code = unit_name (spec_unit code)"
  by (simp add: determineUnit_def spec_unit_def)

lemma unit_name_Celsius_iff: "(unit_name u = unit_name Celsius) = (u = Celsius)"
  by (cases u) simp_all

lemma spec_unit_Celsius_iff: "(spec_unit code = Celsius) = (code = 0x20)"
  by (simp add: spec_unit_def)

lemma probeUnit_eq: "probeUnit w = determineUnit (inputUnitBits w)"
  by (simp add: probeUnit_def inputUnitBits_def Let_def)

lemma inputFinalValue_spec:
  "inputFinalValue w = spec_scale (spec_unit (inputUnitBits w)) (inputSignResolved w)"
  by (simp add: inputFinalValue_def spec_scale_def spec_unit_Celsius_iff)

lemma units_readSystemConfiguration:
  assumes "readSystemConfiguration dev n = (Resolved cfg, n')" "success cfg"
  shows "\<exists>sv. stateValues cfg = Some sv \<and>
              units cfg = map (\<lambda>(key, v). (key, probeUnit v)) (inputs sv)"
  using assms
  by (auto simp: readSystemConfiguration_def failedConfiguration_def
      split: prod.splits promise.splits option.splits)

text \<open>
  C9: for every input word, the unit the probe derives is the name of the
  specification's Unit for the unit bits the poll computes from the same word; the value
  the poll publishes is the sign-resolved value scaled by the rule of that same Unit; so
  the poll divides by 10 exactly when the probe's unit is the Celsius unit. For a 16-bit
  word the unit bits are the high byte AND 0x70. In a successful probe the units are
  derived by this rule from the inputs of the record it fetched, and a poll publishes
  the inputs of a record by the same rule.
\<close>

theorem C9_probe_poll_units:
  "probeUnit w = unit_name (spec_unit (inputUnitBits w)) \<and>
   inputFinalValue w = spec_scale (spec_unit (inputUnitBits w)) (inputSignResolved w) \<and>
   (inputUnitBits w = 0x20) = (probeUnit w = unit_name Celsius) \<and>
   (0 \<le> w \<and> w < 65536 \<longrightarrow> inputUnitBits w = (w div 256) AND 0x70) \<and>
   (readSystemConfiguration dev n = (Resolved cfg, n') \<and> success cfg \<longrightarrow>
      (\<exists>sv. stateValues cfg = Some sv \<and>
         units cfg = map (\<lambda>(key, v). (key, unit_name (spec_unit (inputUnitBits v)))) (inputs sv) \<and>
         publishInputs sv =
           map (\<lambda>(key, v). (''inputs.'' @ key,
                  JNum (spec_scale (spec_unit (inputUnitBits v)) (inputSignResolved v)))) (inputs sv)))"
proof -
  have u: "probeUnit v = unit_name (spec_unit (inputUnitBits v))" for v
    by (simp add: probeUnit_eq determineUnit_spec)
  have c: "(inputUnitBits w = 0x20) = (probeUnit w = unit_name Celsius)"
    unfolding u unit_name_Celsius_iff spec_unit_Celsius_iff ..
  have b: "0 \<le> w \<and> w < 65536 \<longrightarrow> inputUnitBits w = (w div 256) AND 0x70"
    using inputUnitBits_eq[of w] by blast
  have p: "publishInputs sv =
           map (\<lambda>(key, v). (''inputs.'' @ key,
                  JNum (spec_scale (spec_unit (inputUnitBits v)) (inputSignResolved v)))) (inputs sv)" for sv
    by (simp add: publishInputs_def inputFinalValue_spec)
  have r: "readSystemConfiguration dev n = (Resolved cfg, n') \<and> success cfg \<longrightarrow>
      (\<exists>sv. stateValues cfg = Some sv \<and>
         units cfg = map (\<lambda>(key, v). (key, unit_name (spec_unit (inputUnitBits v)))) (inputs sv) \<and>
         publishInputs sv =
           map (\<lambda>(key, v). (''inputs.'' @ key,
                  JNum (spec_scale (spec_unit (inputUnitBits v)) (inputSignResolved v)))) (inputs sv))"
    using units_readSystemConfiguration[of dev n cfg n'] p by (auto simp: u)
  show ?thesis using u[of w] inputFinalValue_spec[of w] c b r by blast
qed

theorem C9_probe_poll_units_witness:
  "(0::int) \<le> 0x20FF \<and> (0x20FF::int) < 65536 \<and> inputUnitBits 0x20FF = 0x20 \<and>
   probeUnit 0x20FF = [CHR 0xB0, CHR ''C''] \<and> inputFinalValue 0x20FF = 25.5 \<and>
   readSystemConfiguration exampleDevice 0 = (Resolved exampleConfiguration, 5) \<and>
   success exampleConfiguration \<and>
   units exampleConfiguration =
     map (\<lambda>(key, v). (key, unit_name (spec_unit (inputUnitBits v)))) (inputs (parseUvrRecord syntheticRecord))"
proof -
  have s: "success exampleConfiguration"
    "stateValues exampleConfiguration = Some (parseUvrRecord syntheticRecord)"
    by (simp_all add: exampleConfiguration_def)
  have u: "inputUnitBits 0x20FF = 0x20" by (simp add: inputUnitBits_eq)
  have v: "inputSignResolved 0x20FF = 255" by (simp add: inputSignResolved_closed)
  show ?thesis
    using C9_probe_poll_units[of "0x20FF" exampleDevice 0 exampleConfiguration 5]
      exampleDevice_probe s u v
    by (simp add: spec_unit_def spec_scale_def)
qed

section \<open>The lifecycle of the adapter\<close>

lemma initialized_setState [simp]: "initialized (setState ident v a) = initialized a"
  by (simp add: setState_def)

lemma initialized_setStates [simp]: "initialized (setStates kvs a) = initialized a"
  unfolding setStates_def by (induction kvs arbitrary: a) (simp_all split: prod.splits)

lemma published_setState [simp]: "published (setState ident v a) ident = Some v"
  by (simp add: published_def setState_def)

lemma initialized_declareObjects [simp]: "initialized (declareObjects cfg a) = initialized a"
  by (simp add: declareObjects_def split: option.splits)

lemma poll_undefined:
  assumes "fetchStateValuesFromDevice dev n = (Resolved None, n')"
  shows "poll dev (a, n) =
         (setState ''info.connection'' (JBool False) (setState ''info.connection'' (JBool True) a), n')"
  using assms by (simp add: poll_def)

lemma poll_initialized: "initialized (fst (poll dev (a, n))) = initialized a"
  by (simp add: poll_def Let_def split: prod.splits promise.splits option.splits)

lemma tick_initialized: "initialized a \<Longrightarrow> tick dev (a, n) = poll dev (a, n)"
  by (simp add: tick_def)

lemma tick_probe_failed:
  assumes "\<not> initialized a" "readSystemConfiguration dev n = (Resolved cfg, n')" "\<not> success cfg"
  shows "tick dev (a, n) = (setState ''info.connection'' (JBool False) a, n')"
  using assms by (simp add: tick_def initialize_def)

lemma tick_probe_succeeded:
  assumes "\<not> initialized a" "readSystemConfiguration dev n = (Resolved cfg, n')" "success cfg"
  shows "tick dev (a, n) =
         poll dev ((declareObjects cfg (setState ''info.connection'' (JBool True) a)) \<lparr> initialized := True \<rparr>, n')"
  using assms by (simp add: tick_def initialize_def)

lemma tick_absorbing: "initialized a \<Longrightarrow> initialized (fst (tick dev (a, n)))"
  by (simp add: tick_initialized poll_initialized)

lemma run_absorbing: "initialized (fst s) \<Longrightarrow> initialized (fst (run dev k s))"
proof (induction k arbitrary: s)
  case 0
  then show ?case by simp
next
  case (Suc k)
  obtain a n where s: "s = (a, n)" by (cases s)
  have "initialized (fst (tick dev s))" using Suc.prems tick_absorbing[of a dev n] by (simp add: s)
  then show ?case using Suc.IH by simp
qed

text \<open>
  C8: a tick of an initialized adapter whose poll fetch fails (it resolves with undefined)
  leaves the adapter initialized, and the connection status it published last is false;
  so does a tick that initializes the adapter and whose poll fetch then fails. A tick of
  an uninitialized adapter whose probe fails leaves it uninitialized, and the connection
  status it published last is false. An initialized adapter stays initialized over every
  sequence of ticks.
\<close>

theorem C8_lifecycle:
  "(initialized a \<and> fst (fetchStateValuesFromDevice dev n) = Resolved None \<longrightarrow>
      initialized (fst (tick dev (a, n))) \<and>
      published (fst (tick dev (a, n))) ''info.connection'' = Some (JBool False)) \<and>
   (\<not> initialized a \<and> readSystemConfiguration dev n = (Resolved cfg, n1) \<and> success cfg \<and>
    fst (fetchStateValuesFromDevice dev n1) = Resolved None \<longrightarrow>
      initialized (fst (tick dev (a, n))) \<and>
      published (fst (tick dev (a, n))) ''info.connection'' = Some (JBool False)) \<and>
   (\<not> initialized a \<and> readSystemConfiguration dev n = (Resolved cfg, n1) \<and> \<not> success cfg \<longrightarrow>
      \<not> initialized (fst (tick dev (a, n))) \<and>
      published (fst (tick dev (a, n))) ''info.connection'' = Some (JBool False)) \<and>
   (initialized a \<longrightarrow> initialized (fst (run dev k (a, n))))"
proof -
  have p: "initialized (fst (poll dev (b, m))) = initialized b \<and>
      published (fst (poll dev (b, m))) ''info.connection'' = Some (JBool False)"
    if h: "fst (fetchStateValuesFromDevice dev m) = Resolved None" for b m
  proof -
    obtain m' where "fetchStateValuesFromDevice dev m = (Resolved None, m')"
      using h by (cases "fetchStateValuesFromDevice dev m") auto
    then show ?thesis by (simp add: poll_undefined)
  qed
  have a1: "initialized a \<and> fst (fetchStateValuesFromDevice dev n) = Resolved None \<longrightarrow>
      initialized (fst (tick dev (a, n))) \<and>
      published (fst (tick dev (a, n))) ''info.connection'' = Some (JBool False)"
    using p[of n a] by (simp add: tick_initialized)
  have a2: "\<not> initialized a \<and> readSystemConfiguration dev n = (Resolved cfg, n1) \<and> success cfg \<and>
    fst (fetchStateValuesFromDevice dev n1) = Resolved None \<longrightarrow>
      initialized (fst (tick dev (a, n))) \<and>
      published (fst (tick dev (a, n))) ''info.connection'' = Some (JBool False)"
    using p[of n1 "(declareObjects cfg (setState ''info.connection'' (JBool True) a)) \<lparr> initialized := True \<rparr>"]
    by (auto simp: tick_probe_succeeded)
  have b: "\<not> initialized a \<and> readSystemConfiguration dev n = (Resolved cfg, n1) \<and> \<not> success cfg \<longrightarrow>
      \<not> initialized (fst (tick dev (a, n))) \<and>
      published (fst (tick dev (a, n))) ''info.connection'' = Some (JBool False)"
    by (auto simp: tick_probe_failed)
  have c: "initialized a \<longrightarrow> initialized (fst (run dev k (a, n)))"
    using run_absorbing[of "(a, n)" dev k] by simp
  show ?thesis using a1 a2 b c by blast
qed

theorem C8_lifecycle_witness:
  "initialized (onReady \<lparr> initialized := True \<rparr>) \<and>
   fst (fetchStateValuesFromDevice deadDevice 0) = Resolved None \<and>
   initialized (fst (tick deadDevice (onReady \<lparr> initialized := True \<rparr>, 0))) \<and>
   published (fst (tick deadDevice (onReady \<lparr> initialized := True \<rparr>, 0))) ''info.connection''
     = Some (JBool False) \<and>
   \<not> initialized onReady \<and>
   readSystemConfiguration fadingDevice 0 = (Resolved exampleConfiguration, 5) \<and>
   success exampleConfiguration \<and>
   fst (fetchStateValuesFromDevice fadingDevice 5) = Resolved None \<and>
   initialized (fst (tick fadingDevice (onReady, 0))) \<and>
   published (fst (tick fadingDevice (onReady, 0))) ''info.connection'' = Some (JBool False) \<and>
   readSystemConfiguration deadDevice 0 = (Resolved failedConfiguration, 1) \<and>
   \<not> success failedConfiguration \<and>
   \<not> initialized (fst (tick deadDevice (onReady, 0))) \<and>
   published (fst (tick deadDevice (onReady, 0))) ''info.connection'' = Some (JBool False) \<and>
   initialized (fst (run deadDevice 3 (onReady \<lparr> initialized := True \<rparr>, 0)))"
proof -
  have i: "\<not> initialized onReady" "initialized (onReady \<lparr> initialized := True \<rparr>)"
    by (simp_all add: onReady_def)
  have s: "success exampleConfiguration" "\<not> success failedConfiguration"
    by (simp_all add: exampleConfiguration_def failedConfiguration_def)
  have w1: "initialized (fst (tick deadDevice (onReady \<lparr> initialized := True \<rparr>, 0))) \<and>
      published (fst (tick deadDevice (onReady \<lparr> initialized := True \<rparr>, 0))) ''info.connection''
        = Some (JBool False) \<and>
      initialized (fst (run deadDevice 3 (onReady \<lparr> initialized := True \<rparr>, 0)))"
    using C8_lifecycle[of "onReady \<lparr> initialized := True \<rparr>" deadDevice 0 failedConfiguration 1 3]
      deadDevice_fetch[of 0] i by simp
  have w2: "initialized (fst (tick fadingDevice (onReady, 0))) \<and>
      published (fst (tick fadingDevice (onReady, 0))) ''info.connection'' = Some (JBool False)"
    using C8_lifecycle[of onReady fadingDevice 0 exampleConfiguration 5 0]
      fadingDevice_probe fadingDevice_fetch i s by simp
  have w3: "\<not> initialized (fst (tick deadDevice (onReady, 0))) \<and>
      published (fst (tick deadDevice (onReady, 0))) ''info.connection'' = Some (JBool False)"
    using C8_lifecycle[of onReady deadDevice 0 failedConfiguration 1 0]
      deadDevice_probe i s by simp
  show ?thesis
    using w1 w2 w3 i s deadDevice_fetch[of 0] fadingDevice_probe fadingDevice_fetch deadDevice_probe
    by simp
qed

end
